theory Spec2Isabelle
  imports Complex_Main "HOL-Library.Monad_Syntax"
begin

section \<open>Python values and string formatting\<close>

text \<open>
  The protocols read their parameters with \<open>.get()\<close>, which returns the stored value or
  Python's \<open>None\<close> when nothing is stored. An integer, float, string or pointer parameter
  is therefore an \<open>option\<close>; the yes/no parameters always carry their declared default
  and are plain \<open>bool\<close>. A Python exception (\<open>TypeError\<close> from \<open>'%i' % None\<close>,
  \<open>None > 1\<close> or \<open>None + '.mrc'\<close>, \<open>AttributeError\<close> from a method call on
  \<open>None\<close>) is the result \<open>None\<close> of the function that raises it.
\<close>

definition digit_char :: "nat \<Rightarrow> char" where
  "digit_char d = ''0123456789'' ! d"

fun nat_str :: "nat \<Rightarrow> string" where
  "nat_str n = (if n < 10 then [digit_char n] else nat_str (n div 10) @ [digit_char (n mod 10)])"

declare nat_str.simps [simp del]

definition int_str :: "int \<Rightarrow> string" where
  \<comment> \<open>\<open>'%i' % n\<close> for a Python int: decimal digits, a minus sign when negative.\<close>
  "int_str n = (if n < 0 then CHR ''-'' # nat_str (nat (- n)) else nat_str (nat n))"

definition pct_i :: "int option \<Rightarrow> string option" where
  \<comment> \<open>\<open>'%i' % v\<close>: raises TypeError on \<open>None\<close>.\<close>
  "pct_i v = map_option int_str v"

definition pct_s :: "string option \<Rightarrow> string" where
  \<comment> \<open>\<open>'%s' % v\<close>: \<open>None\<close> prints as the word None.\<close>
  "pct_s v = (case v of None \<Rightarrow> ''None'' | Some s \<Rightarrow> s)"

definition truthy_int :: "int option \<Rightarrow> bool" where
  \<comment> \<open>\<open>if v:\<close> on an int or \<open>None\<close>.\<close>
  "truthy_int v = (case v of None \<Rightarrow> False | Some n \<Rightarrow> n \<noteq> 0)"

definition truthy_str :: "string option \<Rightarrow> bool" where
  \<comment> \<open>\<open>if v:\<close> on a str or \<open>None\<close>.\<close>
  "truthy_str v = (case v of None \<Rightarrow> False | Some s \<Rightarrow> s \<noteq> [])"

definition only_if :: "bool \<Rightarrow> 'a list \<Rightarrow> 'a list" where
  \<comment> \<open>The text appended by \<open>if c: cmd += s\<close>.\<close>
  "only_if c s = (if c then s else [])"

definition round_half_even :: "rat \<Rightarrow> int" where
  "round_half_even x =
     (let f = \<lfloor>x\<rfloor>; r = x - of_int f
      in if r < 1 / 2 then f else if 1 / 2 < r then f + 1 else if even f then f else f + 1)"

text \<open>
  A Python float is a finite value, given exactly (\<open>Finite 0\<close> is \<open>0.0\<close>), or negative
  zero, an infinity or a NaN.
\<close>

datatype pyfloat = Finite rat | Minus_Zero | Plus_Infinity | Minus_Infinity | Not_a_Number

definition fixed_1 :: "rat \<Rightarrow> string" where
  \<comment> \<open>One decimal of a finite value: it is rounded correctly to a tenth, a tie going to
      the even digit, and printed with its sign, a value below zero that rounds to zero
      included.\<close>
  "fixed_1 x =
     (let n = nat (round_half_even (10 * \<bar>x\<bar>))
      in (if x < 0 then ''-'' else []) @ nat_str (n div 10) @ ''.'' @ [digit_char (n mod 10)])"

fun fmt_1f :: "pyfloat \<Rightarrow> string" where
  \<comment> \<open>\<open>'%.1f' % x\<close> for a float.\<close>
  "fmt_1f (Finite x) = fixed_1 x"
| "fmt_1f Minus_Zero = ''-0.0''"
| "fmt_1f Plus_Infinity = ''inf''"
| "fmt_1f Minus_Infinity = ''-inf''"
| "fmt_1f Not_a_Number = ''nan''"

definition pct_1f :: "pyfloat option \<Rightarrow> string option" where
  \<comment> \<open>\<open>'%.1f' % v\<close>: raises TypeError on \<open>None\<close>.\<close>
  "pct_1f v = map_option fmt_1f v"

definition fmt_03d :: "nat \<Rightarrow> string" where
  \<comment> \<open>\<open>'{:03d}'.format(n)\<close> for \<open>n \<ge> 0\<close>: zero-padded to three characters.\<close>
  "fmt_03d n = replicate (3 - length (nat_str n)) CHR ''0'' @ nat_str n"

section \<open>The host framework's part of a protocol\<close>

text \<open>
  \<open>numberOfThreads\<close> and \<open>numberOfMpi\<close> are the parameters of the parallel section;
  \<open>getExtraPath\<close> is the protocol's \<open>_getExtraPath(*paths)\<close>, a path below its extra
  directory, and is left to the framework. \<open>Plugin.runRelionTomo\<close> and the deletion of a
  file are the effects the protocols have, recorded as events.
\<close>

record Protocol =
  numberOfThreads :: "int option"
  numberOfMpi :: "int option"
  getExtraPath :: "string list \<Rightarrow> string"

datatype event =
    RunRelionTomo string string "int option"
  | FixVolume string
  | Remove string

section \<open>utils.py\<close>

definition getProgram :: "string \<Rightarrow> int option \<Rightarrow> string option" where
  "getProgram program nMpi =
     (case nMpi of
        None \<Rightarrow> None
      | Some n \<Rightarrow> Some (if n > 1 then program @ ''_mpi'' else program))"

section \<open>protocol_de_novo_initial_model.py\<close>

text \<open>
  \<open>inputPseudoSubtomosProt\<close> is the pointed protocol's \<open>_getExtraPath\<close> (\<open>None\<close> for an
  unset pointer). \<open>zeroMask\<close> is declared an \<open>IntParam\<close>, so it is an integer here.
\<close>

record DeNovo = Protocol +
  inputPseudoSubtomosProt :: "(string list \<Rightarrow> string) option"
  doCTF :: bool
  ignoreCTFUntilFirstPeak :: bool
  ctfPhaseFlipped :: bool
  padCtf :: bool
  ctfUncorrectedRef :: bool
  maxNumberOfIterations :: "int option"
  numberOfClasses :: "int option"
  maskDiameter :: "int option"
  zeroMask :: "int option"
  gradBasedOpt :: bool
  gradWriteIter :: "int option"
  noInitBlobs :: bool
  flattenSolvent :: bool
  symmetry :: "string option"
  angularSamplingDeg :: "int option"
  offsetSearchRangePix :: "int option"
  offsetSearchStepPix :: "int option"
  noParallelDiscIO :: bool
  pooledSubtomos :: "int option"
  allParticlesRam :: bool
  combineItersDisc :: bool
  scratchDir :: "string option"
  doGpu :: bool
  gpusToUse :: "string option"
  keepOnlyLastIterFiles :: bool
  oversampling :: "int option"
  extraParams :: "string option"

text \<open>
  \<open>_genCommand\<close>, statement by statement: \<open>if c: cmd += s\<close> appends \<open>only_if c s\<close>,
  and a value formatted with \<open>%i\<close> is bound first, since formatting \<open>None\<close> raises.
  The constant \<open>OUT_SUBTOMOS_STAR\<close> of \<open>reliontomo.constants\<close> is a parameter.
\<close>

definition genCommand :: "string \<Rightarrow> DeNovo \<Rightarrow> string option" where
  "genCommand OUT_SUBTOMOS_STAR self = do {
     let cmd = [];
     inProt \<leftarrow> inputPseudoSubtomosProt self;
     let cmd = cmd @ ''--i '' @ inProt [OUT_SUBTOMOS_STAR] @ '' '';
     let cmd = cmd @ ''--o '' @ getExtraPath self [] @ '' '';
     let cmd = cmd @ ''--denovo_3dref '';
     j \<leftarrow> pct_i (numberOfThreads self);
     let cmd = cmd @ ''--j '' @ j @ '' '';
     let cmd = cmd @ only_if (doCTF self) ''--ctf '';
     let cmd = cmd @ only_if (ignoreCTFUntilFirstPeak self) ''--ctf_intact_first_peak '';
     let cmd = cmd @ only_if (ctfPhaseFlipped self) ''--ctf_phase_flipped '';
     let cmd = cmd @ only_if (padCtf self) ''--pad_ctf '';
     let cmd = cmd @ only_if (ctfUncorrectedRef self) ''--ctf_uncorrected_ref '';
     iter \<leftarrow> pct_i (maxNumberOfIterations self);
     let cmd = cmd @ ''--iter '' @ iter @ '' '';
     k \<leftarrow> pct_i (numberOfClasses self);
     let cmd = cmd @ ''--K '' @ k @ '' '';
     diam \<leftarrow> pct_i (maskDiameter self);
     let cmd = cmd @ ''--particle_diameter '' @ diam @ '' '';
     let cmd = cmd @ only_if (truthy_int (zeroMask self)) ''--zero_mask '';
     let cmd = cmd @ only_if (flattenSolvent self) ''--flatten_solvent '';
     let cmd = cmd @ only_if (gradBasedOpt self) ''--grad '';
     gwi \<leftarrow> (if truthy_int (gradWriteIter self)
             then map_option (\<lambda>s. ''--grad_write_iter '' @ s @ '' '') (pct_i (gradWriteIter self))
             else Some []);
     let cmd = cmd @ gwi;
     let cmd = cmd @ only_if (noInitBlobs self) ''--no_init_blobs '';
     let cmd = cmd @ ''--sym '' @ pct_s (symmetry self) @ '' '';
     hp \<leftarrow> pct_i (angularSamplingDeg self);
     let cmd = cmd @ ''--healpix_order '' @ hp @ '' '';
     step \<leftarrow> pct_i (offsetSearchStepPix self);
     let cmd = cmd @ ''--offset_step '' @ step @ '' '';
     range \<leftarrow> pct_i (offsetSearchRangePix self);
     let cmd = cmd @ ''--offset_range '' @ range @ '' '';
     let cmd = cmd @ only_if (noParallelDiscIO self) ''--no_parallel_disc_io '';
     pool \<leftarrow> pct_i (pooledSubtomos self);
     let cmd = cmd @ ''--pool '' @ pool @ '' '';
     let cmd = cmd @ only_if (allParticlesRam self) ''--preread_images '';
     let cmd = cmd @ only_if (\<not> combineItersDisc self) ''--dont_combine_weights_via_disc '';
     let cmd = cmd @ only_if (truthy_str (scratchDir self)) (''--scratch_dir '' @ pct_s (scratchDir self) @ '' '');
     let cmd = cmd @ only_if (doGpu self) (''--gpu '' @ pct_s (gpusToUse self) @ '' '');
     ov \<leftarrow> pct_i (oversampling self);
     let cmd = cmd @ ''oversampling '' @ ov;
     let cmd = cmd @ only_if (truthy_str (extraParams self)) ('' '' @ pct_s (extraParams self));
     Some cmd
   }"

text \<open>
  \<open>_generateDeNovo3DModel\<close>: the arguments of the call are evaluated from left to right,
  then the runner is called; the step's effect is that one call.
\<close>

definition generateDeNovo3DModel :: "string \<Rightarrow> DeNovo \<Rightarrow> event list option" where
  "generateDeNovo3DModel OUT_SUBTOMOS_STAR self = do {
     let nMpi = (if gradBasedOpt self then Some 1 else numberOfMpi self);
     program \<leftarrow> getProgram ''relion_refine'' nMpi;
     cmd \<leftarrow> genCommand OUT_SUBTOMOS_STAR self;
     Some [RunRelionTomo program cmd nMpi]
   }"

text \<open>
  \<open>_insertAllSteps\<close> registers the step functions; the framework then runs them in
  order, and an exception in one stops the run.
\<close>

definition insertAllSteps :: "string \<Rightarrow> DeNovo \<Rightarrow> (DeNovo \<Rightarrow> event list option) list" where
  "insertAllSteps OUT_SUBTOMOS_STAR self = [generateDeNovo3DModel OUT_SUBTOMOS_STAR]"

fun runSteps :: "('p \<Rightarrow> event list option) list \<Rightarrow> 'p \<Rightarrow> event list option" where
  "runSteps [] self = Some []"
| "runSteps (s # ss) self = do { a \<leftarrow> s self; b \<leftarrow> runSteps ss self; Some (a @ b) }"

definition runDeNovo :: "string \<Rightarrow> DeNovo \<Rightarrow> event list option" where
  "runDeNovo OUT_SUBTOMOS_STAR self = runSteps (insertAllSteps OUT_SUBTOMOS_STAR self) self"

text \<open>
  \<open>_cleanUndesiredFiles\<close>. The class defines neither \<open>_lastIter\<close> nor \<open>nClasses\<close>; both
  are parameters here, as are \<open>os.path.abspath\<close> and the set of existing files, which
  the function returns updated together with the deletions it made.
\<close>

definition removeIfExists :: "string \<Rightarrow> string set \<times> event list \<Rightarrow> string set \<times> event list" where
  "removeIfExists fn s =
     (case s of (files, evs) \<Rightarrow>
        if fn \<in> files then (files - {fn}, evs @ [Remove fn]) else (files, evs))"

definition iterFiles :: "(string \<Rightarrow> string) \<Rightarrow> nat \<Rightarrow> DeNovo \<Rightarrow> nat \<Rightarrow> string list" where
  "iterFiles abspath nClasses self i =
     map (\<lambda>calcFile. abspath (getExtraPath self
            [''relion_it'' @ fmt_03d i @ ''_'' @ calcFile @ ''.star'']))
         [''data'', ''model'', ''optimiser'', ''sampling'']
     @ map (\<lambda>itr. abspath (getExtraPath self
            [''relion_it'' @ fmt_03d i @ ''_'' @ ''class'' @ fmt_03d itr @ ''.mrc'']))
         [1 ..< nClasses + 1]"

definition cleanUndesiredFiles ::
  "(string \<Rightarrow> string) \<Rightarrow> nat \<Rightarrow> nat \<Rightarrow> DeNovo \<Rightarrow> string set \<Rightarrow> string set \<times> event list" where
  "cleanUndesiredFiles abspath lastIter nClasses self files =
     foldl (\<lambda>s fn. removeIfExists fn s) (files, [])
       (concat (map (iterFiles abspath nClasses self) [0 ..< lastIter]))"

section \<open>protocol_rec_tomogram.py\<close>

text \<open>
  \<open>inReParticles\<close> comes from the base protocol \<open>ProtRelionTomoBase\<close>; of the object it
  points to, the protocol reads \<open>getTomograms()\<close> and \<open>getTsSamplingRate()\<close>. The
  product of two floats is a parameter \<open>fmul\<close> of the step that computes one.
\<close>

record RelionParticles =
  getTomograms :: "string option"
  getTsSamplingRate :: "pyfloat option"

record TomoReconstruct = Protocol +
  inReParticles :: "RelionParticles option"
  tomoId :: "string option"
  binFactor :: "pyfloat option"
  width :: "int option"
  height :: "int option"
  thickness :: "int option"

record Tomogram =
  location :: string
  samplingRate :: pyfloat
  tsId :: string

definition getOutTomoFileName :: "TomoReconstruct \<Rightarrow> string option" where
  "getOutTomoFileName self = do {
     tid \<leftarrow> tomoId self;
     Some (getExtraPath self [tid @ ''.mrc''])
   }"

definition genTomoRecCommand :: "TomoReconstruct \<Rightarrow> string option" where
  "genTomoRecCommand self = do {
     parts \<leftarrow> inReParticles self;
     let cmd = ''--t '' @ pct_s (getTomograms parts) @ '' '';
     let cmd = cmd @ ''--tn '' @ pct_s (tomoId self) @ '' '';
     out \<leftarrow> getOutTomoFileName self;
     let cmd = cmd @ ''--o '' @ out @ '' '';
     bin \<leftarrow> pct_1f (binFactor self);
     let cmd = cmd @ ''--bin '' @ bin @ '' '';
     w \<leftarrow> pct_i (width self);
     let cmd = cmd @ ''--w '' @ w @ '' '';
     h \<leftarrow> pct_i (height self);
     let cmd = cmd @ ''--h '' @ h @ '' '';
     d \<leftarrow> pct_i (thickness self);
     let cmd = cmd @ ''--d '' @ d @ '' '';
     j \<leftarrow> pct_i (numberOfThreads self);
     let cmd = cmd @ ''--j '' @ j @ '' '';
     Some cmd
   }"

text \<open>
  The two steps of the protocol. \<open>_reconstructStep\<close> calls the runner without a process
  count. \<open>_createOutputStep\<close> builds the output tomogram; its call of \<open>fixVolume\<close> is
  recorded as an event, and \<open>setOrigin\<close>, \<open>_defineOutputs\<close> and
  \<open>_defineSourceRelation\<close>, which belong to the framework, are left out.
\<close>

definition reconstructStep :: "TomoReconstruct \<Rightarrow> event list option" where
  "reconstructStep self = do {
     cmd \<leftarrow> genTomoRecCommand self;
     Some [RunRelionTomo ''relion_tomo_reconstruct_tomogram'' cmd None]
   }"

definition createOutputStep ::
  "(pyfloat \<Rightarrow> pyfloat \<Rightarrow> pyfloat) \<Rightarrow> TomoReconstruct \<Rightarrow> (Tomogram \<times> event list) option" where
  "createOutputStep fmul self = do {
     outFileName \<leftarrow> getOutTomoFileName self;
     parts \<leftarrow> inReParticles self;
     ts \<leftarrow> getTsSamplingRate parts;
     bin \<leftarrow> binFactor self;
     tid \<leftarrow> tomoId self;
     Some (\<lparr>location = outFileName, samplingRate = fmul ts bin, tsId = tid\<rparr>,
           [FixVolume outFileName])
   }"

section \<open>Notions used to state the properties\<close>

text \<open>
  A token of a command line is a maximal run of characters without white space; white
  space is the space character, tab, line feed, vertical tab, form feed and carriage
  return.
\<close>

definition isspace :: "char \<Rightarrow> bool" where
  "isspace c \<longleftrightarrow> c \<in> set [CHR '' '', CHR 0x09, CHR 0x0A, CHR 0x0B, CHR 0x0C, CHR 0x0D]"

fun split_fields :: "string \<Rightarrow> string list" where
  "split_fields [] = [[]]"
| "split_fields (c # cs) =
     (if isspace c then [] # split_fields cs
      else (case split_fields cs of [] \<Rightarrow> [[c]] | w # ws \<Rightarrow> (c # w) # ws))"

definition tokens :: "string \<Rightarrow> string list" where
  "tokens s = filter (\<lambda>w. w \<noteq> []) (split_fields s)"

definition word :: "string \<Rightarrow> bool" where
  "word w \<longleftrightarrow> w \<noteq> [] \<and> (\<forall>c \<in> set w. \<not> isspace c)"

definition digit_val :: "char \<Rightarrow> nat" where
  "digit_val c = of_char c - 48"

definition read_nat :: "string \<Rightarrow> nat" where
  \<comment> \<open>The number that a string of decimal digits denotes.\<close>
  "read_nat s = foldl (\<lambda>a c. 10 * a + digit_val c) 0 s"

definition numeric :: "char \<Rightarrow> bool" where
  "numeric c \<longleftrightarrow> c \<in> set ''-0123456789''"

text \<open>
  A de-novo instance is fully populated when every value that \<open>_genCommand\<close> formats
  with \<open>%i\<close>, and the input pointer, is set. These are exactly the instances on which
  it returns a command.
\<close>

definition populated :: "DeNovo \<Rightarrow> bool" where
  "populated p \<longleftrightarrow>
     inputPseudoSubtomosProt p \<noteq> None \<and> numberOfThreads p \<noteq> None \<and>
     maxNumberOfIterations p \<noteq> None \<and> numberOfClasses p \<noteq> None \<and> maskDiameter p \<noteq> None \<and>
     angularSamplingDeg p \<noteq> None \<and> offsetSearchStepPix p \<noteq> None \<and>
     offsetSearchRangePix p \<noteq> None \<and> pooledSubtomos p \<noteq> None \<and> oversampling p \<noteq> None"

text \<open>
  The pieces appended by the statements of \<open>_genCommand\<close>, one per statement and in
  their order; a statement that is skipped contributes the empty piece.
\<close>

definition flag :: "string \<Rightarrow> string" where
  "flag f = f @ '' ''"

definition opt :: "string \<Rightarrow> string \<Rightarrow> string" where
  "opt f v = f @ '' '' @ v @ '' ''"

definition num :: "int option \<Rightarrow> string" where
  "num v = (case v of None \<Rightarrow> [] | Some n \<Rightarrow> int_str n)"

definition inputStar :: "string \<Rightarrow> DeNovo \<Rightarrow> string" where
  "inputStar K p = (case inputPseudoSubtomosProt p of None \<Rightarrow> [] | Some f \<Rightarrow> f [K])"

definition fragments :: "string \<Rightarrow> DeNovo \<Rightarrow> string list" where
  "fragments K p =
     [opt ''--i'' (inputStar K p),
      opt ''--o'' (getExtraPath p []),
      flag ''--denovo_3dref'',
      opt ''--j'' (num (numberOfThreads p)),
      only_if (doCTF p) (flag ''--ctf''),
      only_if (ignoreCTFUntilFirstPeak p) (flag ''--ctf_intact_first_peak''),
      only_if (ctfPhaseFlipped p) (flag ''--ctf_phase_flipped''),
      only_if (padCtf p) (flag ''--pad_ctf''),
      only_if (ctfUncorrectedRef p) (flag ''--ctf_uncorrected_ref''),
      opt ''--iter'' (num (maxNumberOfIterations p)),
      opt ''--K'' (num (numberOfClasses p)),
      opt ''--particle_diameter'' (num (maskDiameter p)),
      only_if (truthy_int (zeroMask p)) (flag ''--zero_mask''),
      only_if (flattenSolvent p) (flag ''--flatten_solvent''),
      only_if (gradBasedOpt p) (flag ''--grad''),
      only_if (truthy_int (gradWriteIter p)) (opt ''--grad_write_iter'' (num (gradWriteIter p))),
      only_if (noInitBlobs p) (flag ''--no_init_blobs''),
      opt ''--sym'' (pct_s (symmetry p)),
      opt ''--healpix_order'' (num (angularSamplingDeg p)),
      opt ''--offset_step'' (num (offsetSearchStepPix p)),
      opt ''--offset_range'' (num (offsetSearchRangePix p)),
      only_if (noParallelDiscIO p) (flag ''--no_parallel_disc_io''),
      opt ''--pool'' (num (pooledSubtomos p)),
      only_if (allParticlesRam p) (flag ''--preread_images''),
      only_if (\<not> combineItersDisc p) (flag ''--dont_combine_weights_via_disc''),
      only_if (truthy_str (scratchDir p)) (opt ''--scratch_dir'' (pct_s (scratchDir p))),
      only_if (doGpu p) (opt ''--gpu'' (pct_s (gpusToUse p))),
      flag ''oversampling'' @ num (oversampling p),
      only_if (truthy_str (extraParams p)) ('' '' @ pct_s (extraParams p))]"

text \<open>
  An instance used for examples: the declared defaults of the form, a mask diameter of
  200 and extra directories in the framework's layout.
\<close>

definition extraDir :: "string \<Rightarrow> string list \<Rightarrow> string" where
  "extraDir run paths = foldl (\<lambda>a b. a @ ''/'' @ b) (run @ ''/extra'') paths"

definition form_defaults :: DeNovo where
  "form_defaults =
     \<lparr>numberOfThreads = Some 1, numberOfMpi = Some 1, getExtraPath = extraDir ''Runs/2'',
      inputPseudoSubtomosProt = Some (extraDir ''Runs/1''),
      doCTF = True, ignoreCTFUntilFirstPeak = False, ctfPhaseFlipped = False, padCtf = False,
      ctfUncorrectedRef = False, maxNumberOfIterations = Some 25, numberOfClasses = Some 1,
      maskDiameter = Some 200, zeroMask = Some 0, gradBasedOpt = False, gradWriteIter = Some 10,
      noInitBlobs = False, flattenSolvent = False, symmetry = Some ''C1'',
      angularSamplingDeg = Some 2, offsetSearchRangePix = Some 6, offsetSearchStepPix = Some 2,
      noParallelDiscIO = False, pooledSubtomos = Some 1, allParticlesRam = False,
      combineItersDisc = False, scratchDir = None, doGpu = False, gpusToUse = Some ''0'',
      keepOnlyLastIterFiles = False, oversampling = Some 1, extraParams = None\<rparr>"

text \<open>
  The tokens of the pieces, in order, and the strings that \<open>_genCommand\<close> prints as it
  finds them (paths, symmetry, GPU list, extra arguments) with the tokens they contain.
\<close>

definition spaced :: "string \<Rightarrow> bool" where
  "spaced s \<longleftrightarrow> s = [] \<or> last s = CHR '' ''"

definition command_tokens :: "string \<Rightarrow> DeNovo \<Rightarrow> string list" where
  "command_tokens K p =
     [''--i''] @ tokens (inputStar K p) @ [''--o''] @ tokens (getExtraPath p []) @
     [''--denovo_3dref'', ''--j'', num (numberOfThreads p)] @
     only_if (doCTF p) [''--ctf''] @
     only_if (ignoreCTFUntilFirstPeak p) [''--ctf_intact_first_peak''] @
     only_if (ctfPhaseFlipped p) [''--ctf_phase_flipped''] @
     only_if (padCtf p) [''--pad_ctf''] @
     only_if (ctfUncorrectedRef p) [''--ctf_uncorrected_ref''] @
     [''--iter'', num (maxNumberOfIterations p), ''--K'', num (numberOfClasses p),
      ''--particle_diameter'', num (maskDiameter p)] @
     only_if (truthy_int (zeroMask p)) [''--zero_mask''] @
     only_if (flattenSolvent p) [''--flatten_solvent''] @
     only_if (gradBasedOpt p) [''--grad''] @
     only_if (truthy_int (gradWriteIter p)) [''--grad_write_iter'', num (gradWriteIter p)] @
     only_if (noInitBlobs p) [''--no_init_blobs''] @
     [''--sym''] @ tokens (pct_s (symmetry p)) @
     [''--healpix_order'', num (angularSamplingDeg p),
      ''--offset_step'', num (offsetSearchStepPix p),
      ''--offset_range'', num (offsetSearchRangePix p)] @
     only_if (noParallelDiscIO p) [''--no_parallel_disc_io''] @
     [''--pool'', num (pooledSubtomos p)] @
     only_if (allParticlesRam p) [''--preread_images''] @
     only_if (\<not> combineItersDisc p) [''--dont_combine_weights_via_disc''] @
     only_if (truthy_str (scratchDir p)) (''--scratch_dir'' # tokens (pct_s (scratchDir p))) @
     only_if (doGpu p) (''--gpu'' # tokens (pct_s (gpusToUse p))) @
     [''oversampling'', num (oversampling p)] @
     only_if (truthy_str (extraParams p)) (tokens (pct_s (extraParams p)))"

definition user_strings :: "string \<Rightarrow> DeNovo \<Rightarrow> string list" where
  "user_strings K p =
     [inputStar K p, getExtraPath p [], pct_s (symmetry p)] @
     only_if (truthy_str (scratchDir p)) [pct_s (scratchDir p)] @
     only_if (doGpu p) [pct_s (gpusToUse p)] @
     only_if (truthy_str (extraParams p)) [pct_s (extraParams p)]"

definition user_tokens :: "string \<Rightarrow> DeNovo \<Rightarrow> string list" where
  "user_tokens K p = concat (map tokens (user_strings K p))"

text \<open>
  The instances with every yes/no option off and every option that declares a default at
  that default (the mask diameter and the input pointer declare none), and the tokens of
  the statements of \<open>_genCommand\<close> that stand under no \<open>if\<close>.
\<close>

definition all_off_defaults :: "DeNovo \<Rightarrow> bool" where
  "all_off_defaults p \<longleftrightarrow>
     \<not> doCTF p \<and> \<not> ignoreCTFUntilFirstPeak p \<and> \<not> ctfPhaseFlipped p \<and> \<not> padCtf p \<and>
     \<not> ctfUncorrectedRef p \<and> \<not> gradBasedOpt p \<and> \<not> noInitBlobs p \<and> \<not> flattenSolvent p \<and>
     \<not> noParallelDiscIO p \<and> \<not> allParticlesRam p \<and> \<not> combineItersDisc p \<and> \<not> doGpu p \<and>
     \<not> keepOnlyLastIterFiles p \<and>
     numberOfThreads p = Some 1 \<and> numberOfMpi p = Some 1 \<and>
     maxNumberOfIterations p = Some 25 \<and> numberOfClasses p = Some 1 \<and> zeroMask p = Some 0 \<and>
     gradWriteIter p = Some 10 \<and> symmetry p = Some ''C1'' \<and> angularSamplingDeg p = Some 2 \<and>
     offsetSearchRangePix p = Some 6 \<and> offsetSearchStepPix p = Some 2 \<and>
     pooledSubtomos p = Some 1 \<and> scratchDir p = None \<and> gpusToUse p = Some ''0'' \<and>
     oversampling p = Some 1 \<and> extraParams p = None"

definition mandatory_tokens :: "string \<Rightarrow> DeNovo \<Rightarrow> string list" where
  "mandatory_tokens K p =
     [''--i''] @ tokens (inputStar K p) @ [''--o''] @ tokens (getExtraPath p []) @
     [''--denovo_3dref'', ''--j'', num (numberOfThreads p),
      ''--iter'', num (maxNumberOfIterations p), ''--K'', num (numberOfClasses p),
      ''--particle_diameter'', num (maskDiameter p)] @
     [''--sym''] @ tokens (pct_s (symmetry p)) @
     [''--healpix_order'', num (angularSamplingDeg p),
      ''--offset_step'', num (offsetSearchStepPix p),
      ''--offset_range'', num (offsetSearchRangePix p),
      ''--pool'', num (pooledSubtomos p)] @
     [''oversampling'', num (oversampling p)]"

text \<open>
  The yes/no options of the form, with the text of the statement that each one guards
  in \<open>_genCommand\<close> (\<open>keepOnlyLastIterFiles\<close> guards none) and the place of that
  statement among the pieces.
\<close>

datatype toggle =
    DoCTF | IgnoreCTFUntilFirstPeak | CtfPhaseFlipped | PadCtf | CtfUncorrectedRef
  | GradBasedOpt | NoInitBlobs | FlattenSolvent | NoParallelDiscIO | AllParticlesRam
  | CombineItersDisc | DoGpu | KeepOnlyLastIterFiles

fun is_on :: "toggle \<Rightarrow> DeNovo \<Rightarrow> bool" where
  "is_on DoCTF p = doCTF p"
| "is_on IgnoreCTFUntilFirstPeak p = ignoreCTFUntilFirstPeak p"
| "is_on CtfPhaseFlipped p = ctfPhaseFlipped p"
| "is_on PadCtf p = padCtf p"
| "is_on CtfUncorrectedRef p = ctfUncorrectedRef p"
| "is_on GradBasedOpt p = gradBasedOpt p"
| "is_on NoInitBlobs p = noInitBlobs p"
| "is_on FlattenSolvent p = flattenSolvent p"
| "is_on NoParallelDiscIO p = noParallelDiscIO p"
| "is_on AllParticlesRam p = allParticlesRam p"
| "is_on CombineItersDisc p = combineItersDisc p"
| "is_on DoGpu p = doGpu p"
| "is_on KeepOnlyLastIterFiles p = keepOnlyLastIterFiles p"

fun switch_on :: "toggle \<Rightarrow> DeNovo \<Rightarrow> DeNovo" where
  "switch_on DoCTF p = p\<lparr>doCTF := True\<rparr>"
| "switch_on IgnoreCTFUntilFirstPeak p = p\<lparr>ignoreCTFUntilFirstPeak := True\<rparr>"
| "switch_on CtfPhaseFlipped p = p\<lparr>ctfPhaseFlipped := True\<rparr>"
| "switch_on PadCtf p = p\<lparr>padCtf := True\<rparr>"
| "switch_on CtfUncorrectedRef p = p\<lparr>ctfUncorrectedRef := True\<rparr>"
| "switch_on GradBasedOpt p = p\<lparr>gradBasedOpt := True\<rparr>"
| "switch_on NoInitBlobs p = p\<lparr>noInitBlobs := True\<rparr>"
| "switch_on FlattenSolvent p = p\<lparr>flattenSolvent := True\<rparr>"
| "switch_on NoParallelDiscIO p = p\<lparr>noParallelDiscIO := True\<rparr>"
| "switch_on AllParticlesRam p = p\<lparr>allParticlesRam := True\<rparr>"
| "switch_on CombineItersDisc p = p\<lparr>combineItersDisc := True\<rparr>"
| "switch_on DoGpu p = p\<lparr>doGpu := True\<rparr>"
| "switch_on KeepOnlyLastIterFiles p = p\<lparr>keepOnlyLastIterFiles := True\<rparr>"

fun flag_text :: "toggle \<Rightarrow> DeNovo \<Rightarrow> string" where
  "flag_text DoCTF p = ''--ctf ''"
| "flag_text IgnoreCTFUntilFirstPeak p = ''--ctf_intact_first_peak ''"
| "flag_text CtfPhaseFlipped p = ''--ctf_phase_flipped ''"
| "flag_text PadCtf p = ''--pad_ctf ''"
| "flag_text CtfUncorrectedRef p = ''--ctf_uncorrected_ref ''"
| "flag_text GradBasedOpt p = ''--grad ''"
| "flag_text NoInitBlobs p = ''--no_init_blobs ''"
| "flag_text FlattenSolvent p = ''--flatten_solvent ''"
| "flag_text NoParallelDiscIO p = ''--no_parallel_disc_io ''"
| "flag_text AllParticlesRam p = ''--preread_images ''"
| "flag_text CombineItersDisc p = ''--dont_combine_weights_via_disc ''"
| "flag_text DoGpu p = ''--gpu '' @ pct_s (gpusToUse p) @ '' ''"
| "flag_text KeepOnlyLastIterFiles p = []"

fun position :: "toggle \<Rightarrow> nat" where
  "position DoCTF = 4"
| "position IgnoreCTFUntilFirstPeak = 5"
| "position CtfPhaseFlipped = 6"
| "position PadCtf = 7"
| "position CtfUncorrectedRef = 8"
| "position FlattenSolvent = 13"
| "position GradBasedOpt = 14"
| "position NoInitBlobs = 16"
| "position NoParallelDiscIO = 21"
| "position AllParticlesRam = 23"
| "position CombineItersDisc = 24"
| "position DoGpu = 26"
| "position KeepOnlyLastIterFiles = 29"

text \<open>
  The text that the statements before the one guarded by an option append, and the text
  that the statements after it append.
\<close>

definition text_before :: "toggle \<Rightarrow> string \<Rightarrow> DeNovo \<Rightarrow> string" where
  "text_before t K p = concat (take (position t) (fragments K p))"

definition text_after :: "toggle \<Rightarrow> string \<Rightarrow> DeNovo \<Rightarrow> string" where
  "text_after t K p = concat (drop (Suc (position t)) (fragments K p))"

text \<open>
  A reconstruction instance used for examples: binning factor 8, the shape left to the
  program, a tilt-series sampling rate of 1.5; and the exact product of two finite
  floats, which is their float product whenever it is a float, as 1.5 times 8 is.
\<close>

definition exact_product :: "pyfloat \<Rightarrow> pyfloat \<Rightarrow> pyfloat" where
  "exact_product a b =
     (case (a, b) of (Finite x, Finite y) \<Rightarrow> Finite (x * y) | _ \<Rightarrow> Not_a_Number)"

definition tomo_example :: TomoReconstruct where
  "tomo_example =
     \<lparr>numberOfThreads = Some 4, numberOfMpi = Some 0, getExtraPath = extraDir ''Runs/3'',
      inReParticles = Some \<lparr>getTomograms = Some ''Runs/1/extra/tomograms.star'',
                             getTsSamplingRate = Some (Finite (3 / 2))\<rparr>,
      tomoId = Some ''TS_01'', binFactor = Some (Finite 8),
      width = Some (- 1), height = Some (- 1), thickness = Some (- 1)\<rparr>"

section \<open>Auxiliary facts\<close>

subsection \<open>Formatting\<close>

lemma only_if_simps [simp]: "only_if True s = s" "only_if False s = []"
  by (simp_all add: only_if_def)

lemma digit_char_numeric: "d < 10 \<Longrightarrow> numeric (digit_char d)"
proof -
  assume "d < 10"
  then have "''0123456789'' ! d \<in> set ''0123456789''" by (intro nth_mem) simp
  then show ?thesis unfolding numeric_def digit_char_def by (simp only: list.set) blast
qed

lemma nat_str_numeric: "c \<in> set (nat_str n) \<Longrightarrow> numeric c"
proof (induction n rule: nat_str.induct)
  case (1 n)
  show ?case
  proof (cases "n < 10")
    case True
    with 1(2) have "c = digit_char n" by (subst (asm) nat_str.simps) simp
    with True show ?thesis by (simp add: digit_char_numeric)
  next
    case False
    with 1(2) have "c \<in> set (nat_str (n div 10)) \<or> c = digit_char (n mod 10)"
      by (subst (asm) nat_str.simps) auto
    then show ?thesis using 1(1) False by (auto simp: digit_char_numeric)
  qed
qed

lemma nat_str_not_Nil: "nat_str n \<noteq> []"
  by (subst nat_str.simps) simp

lemma int_str_numeric: "c \<in> set (int_str n) \<Longrightarrow> numeric c"
proof (cases "n < 0")
  case True
  assume "c \<in> set (int_str n)"
  with True have "c = CHR ''-'' \<or> c \<in> set (nat_str (nat (- n)))" by (simp add: int_str_def)
  then show ?thesis
  proof
    assume "c = CHR ''-''" then show ?thesis by (simp add: numeric_def)
  next
    assume "c \<in> set (nat_str (nat (- n)))" then show ?thesis by (rule nat_str_numeric)
  qed
next
  case False
  assume "c \<in> set (int_str n)"
  with False show ?thesis by (simp add: int_str_def nat_str_numeric)
qed

lemma int_str_not_Nil: "int_str n \<noteq> []"
  by (simp add: int_str_def nat_str_not_Nil)

lemma numeric_not_space: "numeric c \<Longrightarrow> \<not> isspace c"
  unfolding numeric_def isspace_def by auto

lemma word_int_str: "word (int_str n)"
  unfolding word_def using int_str_numeric numeric_not_space int_str_not_Nil by blast

lemmas eval_defs =
  form_defaults_def extraDir_def pct_i_def pct_s_def int_str_def nat_str.simps digit_char_def
  truthy_int_def truthy_str_def

subsection \<open>Tokens\<close>

lemma split_fields_not_Nil [simp]: "split_fields s \<noteq> []"
  by (induction s) (auto split: list.splits)

lemma split_fields_sep: "isspace c \<Longrightarrow> split_fields (a @ c # b) = split_fields a @ split_fields b"
proof (induction a)
  case Nil
  then show ?case by simp
next
  case (Cons x a)
  then show ?case
    by (cases "split_fields a") (auto split: list.splits)
qed

lemma tokens_sep: "isspace c \<Longrightarrow> tokens (a @ c # b) = tokens a @ tokens b"
  by (simp add: tokens_def split_fields_sep)

lemma split_fields_word: "\<forall>c \<in> set w. \<not> isspace c \<Longrightarrow> split_fields w = [w]"
  by (induction w) auto

lemma tokens_word: "word w \<Longrightarrow> tokens w = [w]"
  by (simp add: tokens_def word_def split_fields_word)

lemma tokens_Nil [simp]: "tokens [] = []"
  by (simp add: tokens_def)

lemma isspace_space [simp]: "isspace CHR '' ''"
  by (simp add: isspace_def)

lemma tokens_flag: "word f \<Longrightarrow> tokens (flag f @ r) = f # tokens r"
  using tokens_sep [of "CHR '' ''" f r] by (simp add: flag_def tokens_word)

lemma tokens_opt: "word f \<Longrightarrow> tokens (opt f v @ r) = f # tokens v @ tokens r"
  using tokens_sep [of "CHR '' ''" f "v @ '' '' @ r"] tokens_sep [of "CHR '' ''" v r]
  by (simp add: opt_def tokens_word)

lemma tokens_spaced: "spaced a \<Longrightarrow> tokens (a @ b) = tokens a @ tokens b"
proof (cases "a = []")
  case True
  then show ?thesis by simp
next
  case False
  assume "spaced a"
  with False have a: "a = butlast a @ [CHR '' '']"
    unfolding spaced_def by (metis append_butlast_last_id)
  have "tokens (a @ b) = tokens (butlast a @ CHR '' '' # b)"
    by (subst a) simp
  also have "\<dots> = tokens (butlast a) @ tokens b" by (simp add: tokens_sep)
  also have "tokens (butlast a) = tokens (butlast a @ CHR '' '' # [])"
    by (simp add: tokens_sep)
  also have "butlast a @ CHR '' '' # [] = a" using a by simp
  finally show ?thesis .
qed

lemma spaced_simps [simp]:
  "spaced []" "spaced (flag f)" "spaced (opt f v)"
  by (simp_all add: spaced_def flag_def opt_def)

lemma spaced_only_if [simp]: "spaced s \<Longrightarrow> spaced (only_if c s)"
  by (cases c) simp_all

lemma spaced_append [simp]: "spaced a \<Longrightarrow> spaced b \<Longrightarrow> spaced (a @ b)"
  by (cases "b = []") (auto simp: spaced_def)

lemma tokens_only_if: "tokens (only_if c s) = only_if c (tokens s)"
  by (cases c) simp_all

lemma tokens_flag1: "word f \<Longrightarrow> tokens (flag f) = [f]"
  using tokens_flag [of f "[]"] by simp

lemma tokens_opt1: "word f \<Longrightarrow> tokens (opt f v) = f # tokens v"
  using tokens_opt [of f v "[]"] by simp

lemma word_num: "v \<noteq> None \<Longrightarrow> word (num v)"
  by (auto simp: num_def word_int_str)

lemma tokens_num: "v \<noteq> None \<Longrightarrow> tokens (num v) = [num v]"
  by (simp add: tokens_word word_num)

lemma truthy_int_not_None: "truthy_int v \<Longrightarrow> v \<noteq> None"
  by (cases v) (simp_all add: truthy_int_def)

lemma only_if_tokens_num:
  "only_if (truthy_int v) (f # tokens (num v)) = only_if (truthy_int v) [f, num v]"
  by (cases "truthy_int v") (simp_all add: tokens_num truthy_int_not_None)

lemma tokens_tail:
  "v \<noteq> None \<Longrightarrow> tokens (num v @ only_if c (CHR '' '' # e)) = num v # only_if c (tokens e)"
  using tokens_sep [of "CHR '' ''" "num v" e]
  by (cases c) (simp_all add: tokens_num)

lemma mem_only_if [simp]: "x \<in> set (only_if c xs) \<longleftrightarrow> c \<and> x \<in> set xs"
  by (cases c) simp_all

subsection \<open>The command as the concatenation of its pieces\<close>

lemma genCommand_Some:
  assumes "populated p"
  shows "genCommand K p = Some (concat (fragments K p))"
proof -
  from assms obtain ip j it k d hp st rg pl ov where v:
    "inputPseudoSubtomosProt p = Some ip" "numberOfThreads p = Some j"
    "maxNumberOfIterations p = Some it" "numberOfClasses p = Some k" "maskDiameter p = Some d"
    "angularSamplingDeg p = Some hp" "offsetSearchStepPix p = Some st"
    "offsetSearchRangePix p = Some rg" "pooledSubtomos p = Some pl" "oversampling p = Some ov"
    unfolding populated_def by blast
  show ?thesis
  proof (cases "gradWriteIter p")
    case None
    then show ?thesis
      by (simp add: v genCommand_def pct_i_def fragments_def flag_def opt_def num_def
          truthy_int_def inputStar_def)
  next
    case (Some g)
    then show ?thesis
      by (cases "g = 0")
         (simp_all add: v genCommand_def pct_i_def fragments_def flag_def opt_def num_def
           truthy_int_def inputStar_def)
  qed
qed

lemma genCommand_None:
  assumes "\<not> populated p"
  shows "genCommand K p = None"
proof -
  from assms consider
    "inputPseudoSubtomosProt p = None" | "numberOfThreads p = None" |
    "maxNumberOfIterations p = None" | "numberOfClasses p = None" | "maskDiameter p = None" |
    "angularSamplingDeg p = None" | "offsetSearchStepPix p = None" |
    "offsetSearchRangePix p = None" | "pooledSubtomos p = None" | "oversampling p = None"
    unfolding populated_def by blast
  then show ?thesis
    by cases (simp_all add: genCommand_def pct_i_def Option.bind_eq_None_conv)
qed

lemma genCommand_populated: "genCommand K p = Some cmd \<Longrightarrow> populated p"
  using genCommand_None [of p K] by auto

lemma genCommand_fragments: "genCommand K p = Some cmd \<Longrightarrow> cmd = concat (fragments K p)"
  using genCommand_Some [of p K] genCommand_populated [of K p cmd] by simp

lemma tokens_fragments:
  assumes "populated p"
  shows "tokens (concat (fragments K p)) = command_tokens K p"
proof -
  from assms have v:
    "numberOfThreads p \<noteq> None"
    "maxNumberOfIterations p \<noteq> None" "numberOfClasses p \<noteq> None" "maskDiameter p \<noteq> None"
    "angularSamplingDeg p \<noteq> None" "offsetSearchStepPix p \<noteq> None"
    "offsetSearchRangePix p \<noteq> None" "pooledSubtomos p \<noteq> None" "oversampling p \<noteq> None"
    unfolding populated_def by blast+
  have w: "word ''--i''" "word ''--o''" "word ''--denovo_3dref''" "word ''--j''" "word ''--ctf''"
    "word ''--ctf_intact_first_peak''" "word ''--ctf_phase_flipped''" "word ''--pad_ctf''"
    "word ''--ctf_uncorrected_ref''" "word ''--iter''" "word ''--K''" "word ''--particle_diameter''"
    "word ''--zero_mask''" "word ''--flatten_solvent''" "word ''--grad''" "word ''--no_init_blobs''"
    "word ''--sym''" "word ''--healpix_order''" "word ''--offset_step''" "word ''--offset_range''"
    "word ''--no_parallel_disc_io''" "word ''--pool''" "word ''--preread_images''"
    "word ''--dont_combine_weights_via_disc''" "word ''--scratch_dir''" "word ''--gpu''"
    "word ''oversampling''" "word ''--grad_write_iter''"
    by (simp_all add: word_def isspace_def)
  show ?thesis
    unfolding fragments_def command_tokens_def
    by (simp add: tokens_spaced tokens_only_if tokens_flag1 tokens_opt1 tokens_num
        only_if_tokens_num tokens_tail v w)
qed

lemma genCommand_tokens: "genCommand K p = Some cmd \<Longrightarrow> tokens cmd = command_tokens K p"
  using genCommand_fragments [of K p cmd] genCommand_populated [of K p cmd] tokens_fragments [of p K]
  by simp

lemma num_numeric: "c \<in> set (num v) \<Longrightarrow> numeric c"
  by (cases v) (simp_all add: num_def int_str_numeric)

lemma not_num: "\<exists>c \<in> set w. \<not> numeric c \<Longrightarrow> w \<noteq> num v"
  using num_numeric by blast

lemma mem_user_tokens:
  "t \<in> set (user_tokens K p) \<longleftrightarrow>
     t \<in> set (tokens (inputStar K p)) \<or> t \<in> set (tokens (getExtraPath p [])) \<or>
     t \<in> set (tokens (pct_s (symmetry p))) \<or>
     truthy_str (scratchDir p) \<and> t \<in> set (tokens (pct_s (scratchDir p))) \<or>
     doGpu p \<and> t \<in> set (tokens (pct_s (gpusToUse p))) \<or>
     truthy_str (extraParams p) \<and> t \<in> set (tokens (pct_s (extraParams p)))"
  by (cases "truthy_str (scratchDir p)"; cases "doGpu p"; cases "truthy_str (extraParams p)")
     (simp_all add: user_tokens_def user_strings_def)

lemma int_str_values:
  "int_str 0 = ''0''" "int_str 1 = ''1''" "int_str 2 = ''2''" "int_str 6 = ''6''"
  "int_str 10 = ''10''" "int_str 25 = ''25''" "int_str 200 = ''200''"
  by (simp_all add: int_str_def nat_str.simps digit_char_def)

lemma tokens_values:
  "tokens ''C1'' = [''C1'']" "tokens ''None'' = [''None'']" "tokens ''0'' = [''0'']"
  by (simp_all add: tokens_word word_def isspace_def)

subsection \<open>Switching one option on\<close>

lemma concat_split:
  assumes "k < length xs"
  shows "concat xs = concat (take k xs) @ xs ! k @ concat (drop (Suc k) xs)"
proof -
  have "concat xs = concat (take k xs @ xs ! k # drop (Suc k) xs)"
    using id_take_nth_drop [OF assms] by (rule arg_cong)
  then show ?thesis by simp
qed

lemma length_fragments [simp]: "length (fragments K p) = 29"
  by (simp add: fragments_def)

lemma populated_switch_on [simp]: "populated (switch_on t p) = populated p"
  by (cases t) (simp_all add: populated_def)

lemma switch_on_pieces:
  assumes "t \<noteq> KeepOnlyLastIterFiles"
  shows "take (position t) (fragments K (switch_on t p)) = take (position t) (fragments K p)"
    and "drop (Suc (position t)) (fragments K (switch_on t p)) =
         drop (Suc (position t)) (fragments K p)"
    and "spaced (concat (take (position t) (fragments K p)))"
    and "position t < 29"
  using assms by (cases t; simp add: fragments_def inputStar_def)+

lemma switch_on_piece:
  assumes "\<not> is_on t p" and "t \<noteq> KeepOnlyLastIterFiles" and "t \<noteq> CombineItersDisc"
  shows "fragments K p ! position t = []"
    and "fragments K (switch_on t p) ! position t = flag_text t p"
  using assms by (cases t; simp add: fragments_def flag_def opt_def)+

lemma switch_on_combine:
  assumes "\<not> combineItersDisc p"
  shows "fragments K p ! 24 = ''--dont_combine_weights_via_disc ''"
    and "fragments K (p\<lparr>combineItersDisc := True\<rparr>) ! 24 = []"
  using assms by (simp_all add: fragments_def flag_def)

lemma switch_on_keep: "fragments K (switch_on KeepOnlyLastIterFiles p) = fragments K p"
  by (simp add: fragments_def inputStar_def)

subsection \<open>Deletions\<close>

lemma fmt_03d_values: "fmt_03d 0 = ''000''" "fmt_03d 1 = ''001''"
  by (simp_all add: fmt_03d_def nat_str.simps digit_char_def numeral_2_eq_2)

lemma removeIfExists_events:
  "set (snd (removeIfExists fn s)) \<subseteq> set (snd s) \<union> range Remove"
  by (cases s) (auto simp: removeIfExists_def)

lemma foldl_removeIfExists_events:
  "set (snd (foldl (\<lambda>s fn. removeIfExists fn s) s fns)) \<subseteq> set (snd s) \<union> range Remove"
proof (induction fns arbitrary: s)
  case Nil
  then show ?case by simp
next
  case (Cons fn fns)
  have "set (snd (foldl (\<lambda>s fn. removeIfExists fn s) (removeIfExists fn s) fns))
          \<subseteq> set (snd (removeIfExists fn s)) \<union> range Remove"
    by (rule Cons.IH)
  with removeIfExists_events [of fn s] show ?case by auto
qed

lemma cleanUndesiredFiles_events:
  "e \<in> set (snd (cleanUndesiredFiles abspath lastIter nClasses p files)) \<Longrightarrow> \<exists>fn. e = Remove fn"
  using foldl_removeIfExists_events [of "(files, [])"] unfolding cleanUndesiredFiles_def by fastforce

subsection \<open>The reconstruction command\<close>

lemma genTomoRecCommand_parts:
  assumes "genTomoRecCommand p = Some cmd"
  obtains parts tid b w h d j where
    "inReParticles p = Some parts" "tomoId p = Some tid" "binFactor p = Some b"
    "width p = Some w" "height p = Some h" "thickness p = Some d" "numberOfThreads p = Some j"
    "cmd = (opt ''--t'' (pct_s (getTomograms parts)) @ opt ''--tn'' tid @
            opt ''--o'' (getExtraPath p [tid @ ''.mrc''])) @
           opt ''--bin'' (fmt_1f b) @
           (opt ''--w'' (int_str w) @ opt ''--h'' (int_str h) @ opt ''--d'' (int_str d) @
            opt ''--j'' (int_str j))"
  using assms
  by (auto simp: genTomoRecCommand_def getOutTomoFileName_def pct_i_def pct_1f_def pct_s_def
      opt_def split: Option.bind_splits)

lemma fixed_1_values: "fixed_1 8 = ''8.0''" "fixed_1 (33 / 4) = ''8.2''"
  by code_simp+

lemma fmt_1f_values: "fmt_1f (Finite 8) = ''8.0''" "fmt_1f (Finite (33 / 4)) = ''8.2''"
  by (simp_all add: fixed_1_values)

lemma digit_val_digit_char: "d < 10 \<Longrightarrow> digit_val (digit_char d) = d"
proof -
  assume "d < 10"
  then have "d \<in> {0, 1, 2, 3, 4, 5, 6, 7, 8, 9}" by auto
  then show ?thesis by (auto simp: digit_val_def digit_char_def)
qed

lemma read_nat_snoc: "read_nat (s @ [c]) = 10 * read_nat s + digit_val c"
  by (simp add: read_nat_def)

lemma read_nat_nat_str: "read_nat (nat_str n) = n"
proof (induction n rule: nat_str.induct)
  case (1 n)
  show ?case
  proof (cases "n < 10")
    case True
    then show ?thesis
      by (subst nat_str.simps) (simp add: read_nat_def digit_val_digit_char)
  next
    case False
    then have "read_nat (nat_str (n div 10)) = n div 10" using 1 by simp
    with False show ?thesis
      by (subst nat_str.simps) (simp add: read_nat_snoc digit_val_digit_char)
  qed
qed

lemma round_half_even_nearest:
  assumes "0 \<le> y"
  shows "\<bar>y - of_nat (nat (round_half_even y))\<bar> \<le> 1 / 2 \<and>
         (\<bar>y - of_nat (nat (round_half_even y))\<bar> = 1 / 2 \<longrightarrow> even (nat (round_half_even y)))"
proof -
  let ?f = "\<lfloor>y\<rfloor>"
  let ?r = "y - of_int ?f"
  have f0: "0 \<le> ?f" using assms by simp
  have r0: "0 \<le> ?r" and r1: "?r < 1" by linarith+
  have nf: "(of_nat (nat ?f) :: rat) = of_int ?f" using f0 by simp
  have nf1: "(of_nat (nat (?f + 1)) :: rat) = of_int ?f + 1" using f0 by simp
  consider "?r < 1 / 2" | "1 / 2 < ?r" | "?r = 1 / 2" "even ?f" | "?r = 1 / 2" "odd ?f"
    by force
  then show ?thesis
  proof cases
    case 1
    then have "round_half_even y = ?f" by (simp add: round_half_even_def Let_def)
    with 1 r0 nf show ?thesis by simp
  next
    case 2
    then have "round_half_even y = ?f + 1" by (simp add: round_half_even_def Let_def)
    with 2 r1 nf1 show ?thesis by simp
  next
    case 3
    then have "round_half_even y = ?f" by (simp add: round_half_even_def Let_def)
    with 3 f0 nf show ?thesis by (simp add: even_nat_iff)
  next
    case 4
    then have "round_half_even y = ?f + 1" by (simp add: round_half_even_def Let_def)
    with 4 f0 nf1 show ?thesis by (simp add: even_nat_iff)
  qed
qed

lemma digit_char_not_space: "d < 10 \<Longrightarrow> \<not> isspace (digit_char d)"
  by (simp add: digit_char_numeric numeric_not_space)

lemma nat_str_not_space: "c \<in> set (nat_str n) \<Longrightarrow> \<not> isspace c"
  by (simp add: nat_str_numeric numeric_not_space)

lemma word_fixed_1: "word (fixed_1 x)"
proof -
  define n where "n = nat (round_half_even (10 * \<bar>x\<bar>))"
  have f: "fixed_1 x = (if x < 0 then ''-'' else []) @ nat_str (n div 10) @ ''.'' @
                       [digit_char (n mod 10)]"
    by (simp add: fixed_1_def n_def Let_def)
  have "\<not> isspace c" if "c \<in> set (fixed_1 x)" for c
  proof -
    from that f consider "c = CHR ''-''" | "c \<in> set (nat_str (n div 10))" | "c = CHR ''.''"
      | "c = digit_char (n mod 10)"
      by (auto split: if_splits)
    then show ?thesis
    proof cases
      case 1
      then show ?thesis by (simp add: isspace_def)
    next
      case 2
      then show ?thesis by (rule nat_str_not_space)
    next
      case 3
      then show ?thesis by (simp add: isspace_def)
    next
      case 4
      then show ?thesis by (simp add: digit_char_not_space)
    qed
  qed
  moreover have "fixed_1 x \<noteq> []" using f by simp
  ultimately show ?thesis by (simp add: word_def)
qed

lemma word_fmt_1f: "word (fmt_1f b)"
  by (cases b) (simp_all add: word_fixed_1, simp_all add: word_def isspace_def)

lemma tomo_example_command:
  "genTomoRecCommand tomo_example =
     Some ''--t Runs/1/extra/tomograms.star --tn TS_01 --o Runs/3/extra/TS_01.mrc --bin 8.0 --w -1 --h -1 --d -1 --j 4 ''"
  "genTomoRecCommand (tomo_example\<lparr>binFactor := Some (Finite (33 / 4))\<rparr>) =
     Some ''--t Runs/1/extra/tomograms.star --tn TS_01 --o Runs/3/extra/TS_01.mrc --bin 8.2 --w -1 --h -1 --d -1 --j 4 ''"
  "genTomoRecCommand (tomo_example\<lparr>binFactor := Some Plus_Infinity\<rparr>) =
     Some ''--t Runs/1/extra/tomograms.star --tn TS_01 --o Runs/3/extra/TS_01.mrc --bin inf --w -1 --h -1 --d -1 --j 4 ''"
  by (simp_all add: genTomoRecCommand_def getOutTomoFileName_def tomo_example_def pct_1f_def
      fixed_1_values extraDir_def pct_i_def pct_s_def int_str_def nat_str.simps digit_char_def)

section \<open>The properties\<close>

text \<open>
  C2. With gradient-based optimisation on, \<open>_generateDeNovo3DModel\<close> calls the runner with
  one MPI process and the program name without the \<open>_mpi\<close> suffix, whatever
  \<open>numberOfMpi\<close> is, and the derivation raises nothing: the step returns whenever the
  command builder does. With it off, the configured \<open>numberOfMpi\<close> is passed, and the
  suffix is appended exactly when that count is greater than 1.
\<close>

theorem gradient_forces_single_process:
  assumes "genCommand K p = Some cmd"
  shows "(gradBasedOpt p \<longrightarrow>
            generateDeNovo3DModel K p = Some [RunRelionTomo ''relion_refine'' cmd (Some 1)]) \<and>
         (\<not> gradBasedOpt p \<longrightarrow> numberOfMpi p = Some n \<longrightarrow>
            generateDeNovo3DModel K p =
              Some [RunRelionTomo (if 1 < n then ''relion_refine'' @ ''_mpi'' else ''relion_refine'')
                      cmd (Some n)])"
  using assms by (simp add: generateDeNovo3DModel_def getProgram_def)

theorem gradient_forces_single_process_witness:
  "generateDeNovo3DModel ''particles.star''
     (form_defaults\<lparr>numberOfMpi := Some 4, gradBasedOpt := True\<rparr>) =
   Some [RunRelionTomo ''relion_refine''
     ''--i Runs/1/extra/particles.star --o Runs/2/extra --denovo_3dref --j 1 --ctf --iter 25 --K 1 --particle_diameter 200 --grad --grad_write_iter 10 --sym C1 --healpix_order 2 --offset_step 2 --offset_range 6 --pool 1 --dont_combine_weights_via_disc oversampling 1''
     (Some 1)] \<and>
   generateDeNovo3DModel ''particles.star'' (form_defaults\<lparr>numberOfMpi := Some 4\<rparr>) =
   Some [RunRelionTomo ''relion_refine_mpi''
     ''--i Runs/1/extra/particles.star --o Runs/2/extra --denovo_3dref --j 1 --ctf --iter 25 --K 1 --particle_diameter 200 --grad_write_iter 10 --sym C1 --healpix_order 2 --offset_step 2 --offset_range 6 --pool 1 --dont_combine_weights_via_disc oversampling 1''
     (Some 4)]"
proof -
  have a: "genCommand ''particles.star'' (form_defaults\<lparr>numberOfMpi := Some 4, gradBasedOpt := True\<rparr>) =
    Some ''--i Runs/1/extra/particles.star --o Runs/2/extra --denovo_3dref --j 1 --ctf --iter 25 --K 1 --particle_diameter 200 --grad --grad_write_iter 10 --sym C1 --healpix_order 2 --offset_step 2 --offset_range 6 --pool 1 --dont_combine_weights_via_disc oversampling 1''"
    by (simp add: genCommand_def eval_defs)
  have b: "genCommand ''particles.star'' (form_defaults\<lparr>numberOfMpi := Some 4\<rparr>) =
    Some ''--i Runs/1/extra/particles.star --o Runs/2/extra --denovo_3dref --j 1 --ctf --iter 25 --K 1 --particle_diameter 200 --grad_write_iter 10 --sym C1 --healpix_order 2 --offset_step 2 --offset_range 6 --pool 1 --dont_combine_weights_via_disc oversampling 1''"
    by (simp add: genCommand_def eval_defs)
  show ?thesis
    using gradient_forces_single_process [OF a, of 4] gradient_forces_single_process [OF b, of 4]
    by (simp add: form_defaults_def)
qed

text \<open>
  C1, as the code has it. On a fully populated instance, \<open>combineItersDisc\<close> false puts
  the token \<open>--dont_combine_weights_via_disc\<close> into the command. When it is true,
  \<open>_genCommand\<close> does not emit the token: the command has it only if one of the strings
  printed as they are (input path, output path, symmetry, scratch directory, GPU list,
  extra arguments) contains it.
\<close>

theorem dont_combine_flag:
  assumes "genCommand K p = Some cmd"
  shows "(\<not> combineItersDisc p \<longrightarrow> ''--dont_combine_weights_via_disc'' \<in> set (tokens cmd)) \<and>
         (combineItersDisc p \<longrightarrow>
            ''--dont_combine_weights_via_disc'' \<notin> set (user_tokens K p) \<longrightarrow>
            ''--dont_combine_weights_via_disc'' \<notin> set (tokens cmd))"
proof -
  have n: "\<And>v. ''--dont_combine_weights_via_disc'' \<noteq> num v"
    by (rule not_num) (simp add: numeric_def)
  have t: "tokens cmd = command_tokens K p"
    using assms by (rule genCommand_tokens)
  show ?thesis
    unfolding t by (simp add: command_tokens_def mem_user_tokens n)
qed

theorem dont_combine_flag_witness:
  "''--dont_combine_weights_via_disc'' \<in> set (tokens
     ''--i Runs/1/extra/particles.star --o Runs/2/extra --denovo_3dref --j 1 --ctf --iter 25 --K 1 --particle_diameter 200 --grad_write_iter 10 --sym C1 --healpix_order 2 --offset_step 2 --offset_range 6 --pool 1 --dont_combine_weights_via_disc oversampling 1'') \<and>
   ''--dont_combine_weights_via_disc'' \<notin> set (tokens
     ''--i Runs/1/extra/particles.star --o Runs/2/extra --denovo_3dref --j 1 --ctf --iter 25 --K 1 --particle_diameter 200 --grad_write_iter 10 --sym C1 --healpix_order 2 --offset_step 2 --offset_range 6 --pool 1 oversampling 1'')"
proof -
  have a: "genCommand ''particles.star'' form_defaults =
    Some ''--i Runs/1/extra/particles.star --o Runs/2/extra --denovo_3dref --j 1 --ctf --iter 25 --K 1 --particle_diameter 200 --grad_write_iter 10 --sym C1 --healpix_order 2 --offset_step 2 --offset_range 6 --pool 1 --dont_combine_weights_via_disc oversampling 1''"
    by (simp add: genCommand_def eval_defs)
  have b: "genCommand ''particles.star'' (form_defaults\<lparr>combineItersDisc := True\<rparr>) =
    Some ''--i Runs/1/extra/particles.star --o Runs/2/extra --denovo_3dref --j 1 --ctf --iter 25 --K 1 --particle_diameter 200 --grad_write_iter 10 --sym C1 --healpix_order 2 --offset_step 2 --offset_range 6 --pool 1 oversampling 1''"
    by (simp add: genCommand_def eval_defs)
  have u: "''--dont_combine_weights_via_disc'' \<notin>
      set (user_tokens ''particles.star'' (form_defaults\<lparr>combineItersDisc := True\<rparr>))"
    by (simp add: mem_user_tokens inputStar_def eval_defs tokens_word word_def isspace_def)
  show ?thesis
    using dont_combine_flag [OF a] dont_combine_flag [OF b] u
    by (simp add: form_defaults_def)
qed

theorem dont_combine_flag_counterexample:
  "combineItersDisc (form_defaults\<lparr>combineItersDisc := True,
      extraParams := Some ''--dont_combine_weights_via_disc''\<rparr>) \<and>
   genCommand ''particles.star'' (form_defaults\<lparr>combineItersDisc := True,
      extraParams := Some ''--dont_combine_weights_via_disc''\<rparr>) =
     Some ''--i Runs/1/extra/particles.star --o Runs/2/extra --denovo_3dref --j 1 --ctf --iter 25 --K 1 --particle_diameter 200 --grad_write_iter 10 --sym C1 --healpix_order 2 --offset_step 2 --offset_range 6 --pool 1 oversampling 1 --dont_combine_weights_via_disc'' \<and>
   ''--dont_combine_weights_via_disc'' \<in> set (tokens
     ''--i Runs/1/extra/particles.star --o Runs/2/extra --denovo_3dref --j 1 --ctf --iter 25 --K 1 --particle_diameter 200 --grad_write_iter 10 --sym C1 --healpix_order 2 --offset_step 2 --offset_range 6 --pool 1 oversampling 1 --dont_combine_weights_via_disc'')"
  by (simp add: genCommand_def eval_defs tokens_def isspace_def)

text \<open>
  C10. Whenever \<open>_genCommand\<close> returns, its command is some text ending in a space,
  then \<open>oversampling\<close>, a space and the oversampling order in decimal, then the extra
  arguments after one more space when there are any. The option is thus a pair of tokens,
  the first of them \<open>oversampling\<close> itself (no \<open>--\<close> before it), emitted on every
  instance and last before the extra arguments.
\<close>

theorem oversampling_last:
  assumes "genCommand K p = Some cmd"
  shows "\<exists>body n. oversampling p = Some n \<and> body \<noteq> [] \<and> last body = CHR '' '' \<and>
           cmd = body @ ''oversampling '' @ int_str n @
                 only_if (truthy_str (extraParams p)) ('' '' @ pct_s (extraParams p)) \<and>
           tokens cmd = tokens body @ [''oversampling'', int_str n] @
                 only_if (truthy_str (extraParams p)) (tokens (pct_s (extraParams p)))"
proof -
  let ?body = "concat (butlast (butlast (fragments K p)))"
  let ?e = "only_if (truthy_str (extraParams p)) ('' '' @ pct_s (extraParams p))"
  from assms have "populated p" by (rule genCommand_populated)
  then obtain n where n: "oversampling p = Some n"
    unfolding populated_def by blast
  have sp: "spaced ?body"
    by (simp add: fragments_def)
  have ne: "?body \<noteq> []"
    by (simp add: fragments_def opt_def)
  from sp ne have l: "last ?body = CHR '' ''"
    unfolding spaced_def by blast
  have c: "cmd = ?body @ ''oversampling '' @ int_str n @ ?e"
    using genCommand_fragments [OF assms] n by (simp add: fragments_def flag_def num_def)
  have "tokens cmd = tokens ?body @ tokens (flag ''oversampling'' @ num (oversampling p) @ ?e)"
    unfolding c using sp n by (simp add: tokens_spaced flag_def num_def)
  also have "tokens (flag ''oversampling'' @ num (oversampling p) @ ?e) =
      [''oversampling'', int_str n] @
      only_if (truthy_str (extraParams p)) (tokens (pct_s (extraParams p)))"
    using n tokens_tail [of "oversampling p" "truthy_str (extraParams p)" "pct_s (extraParams p)"]
    by (simp add: tokens_flag word_def isspace_def num_def)
  finally show ?thesis
    using n ne l c by blast
qed

theorem oversampling_last_witness:
  "\<exists>body n. oversampling form_defaults = Some n \<and> body \<noteq> [] \<and> last body = CHR '' '' \<and>
     ''--i Runs/1/extra/particles.star --o Runs/2/extra --denovo_3dref --j 1 --ctf --iter 25 --K 1 --particle_diameter 200 --grad_write_iter 10 --sym C1 --healpix_order 2 --offset_step 2 --offset_range 6 --pool 1 --dont_combine_weights_via_disc oversampling 1'' =
       body @ ''oversampling '' @ int_str n"
proof -
  have a: "genCommand ''particles.star'' form_defaults =
    Some ''--i Runs/1/extra/particles.star --o Runs/2/extra --denovo_3dref --j 1 --ctf --iter 25 --K 1 --particle_diameter 200 --grad_write_iter 10 --sym C1 --healpix_order 2 --offset_step 2 --offset_range 6 --pool 1 --dont_combine_weights_via_disc oversampling 1''"
    by (simp add: genCommand_def eval_defs)
  have e: "only_if (truthy_str (extraParams form_defaults)) ('' '' @ pct_s (extraParams form_defaults)) = []"
    by (simp add: form_defaults_def truthy_str_def)
  from oversampling_last [OF a] show ?thesis
    unfolding e by (simp only: append_Nil2) blast
qed

text \<open>
  C6. On an instance with CTF correction on, 25 iterations, one class, mask diameter 200,
  symmetry C1 and angular sampling index 2, the command contains \<open>--ctf \<close>,
  \<open>--iter 25 \<close>, \<open>--K 1 \<close>, \<open>--particle_diameter 200 \<close>, \<open>--sym C1 \<close> and
  \<open>--healpix_order 2 \<close>, one after the other in this order.
\<close>

theorem scenario_in_order:
  assumes "genCommand K p = Some cmd"
    and "doCTF p" and "maxNumberOfIterations p = Some 25" and "numberOfClasses p = Some 1"
    and "maskDiameter p = Some 200" and "symmetry p = Some ''C1''"
    and "angularSamplingDeg p = Some 2"
  shows "\<exists>s0 s1 s2 s3 s4 s5 s6.
           cmd = s0 @ ''--ctf '' @ s1 @ ''--iter 25 '' @ s2 @ ''--K 1 '' @ s3 @
                 ''--particle_diameter 200 '' @ s4 @ ''--sym C1 '' @ s5 @
                 ''--healpix_order 2 '' @ s6"
proof -
  let ?s0 = "concat (take 4 (fragments K p))"
  let ?s1 = "concat (take 4 (drop 5 (fragments K p)))"
  let ?s4 = "concat (take 5 (drop 12 (fragments K p)))"
  let ?s6 = "concat (drop 19 (fragments K p))"
  have "cmd = ?s0 @ ''--ctf '' @ ?s1 @ ''--iter 25 '' @ [] @ ''--K 1 '' @ [] @
              ''--particle_diameter 200 '' @ ?s4 @ ''--sym C1 '' @ [] @
              ''--healpix_order 2 '' @ ?s6"
    using genCommand_fragments [OF assms(1)] assms(2-)
    by (simp add: fragments_def flag_def opt_def num_def pct_s_def int_str_values)
  then show ?thesis by blast
qed

theorem scenario_in_order_witness:
  "\<exists>s0 s1 s2 s3 s4 s5 s6.
     ''--i Runs/1/extra/particles.star --o Runs/2/extra --denovo_3dref --j 1 --ctf --iter 25 --K 1 --particle_diameter 200 --grad_write_iter 10 --sym C1 --healpix_order 2 --offset_step 2 --offset_range 6 --pool 1 --dont_combine_weights_via_disc oversampling 1'' =
       s0 @ ''--ctf '' @ s1 @ ''--iter 25 '' @ s2 @ ''--K 1 '' @ s3 @
       ''--particle_diameter 200 '' @ s4 @ ''--sym C1 '' @ s5 @ ''--healpix_order 2 '' @ s6"
proof -
  have a: "genCommand ''particles.star'' form_defaults =
    Some ''--i Runs/1/extra/particles.star --o Runs/2/extra --denovo_3dref --j 1 --ctf --iter 25 --K 1 --particle_diameter 200 --grad_write_iter 10 --sym C1 --healpix_order 2 --offset_step 2 --offset_range 6 --pool 1 --dont_combine_weights_via_disc oversampling 1''"
    by (simp add: genCommand_def eval_defs)
  have v: "doCTF form_defaults" "maxNumberOfIterations form_defaults = Some 25"
    "numberOfClasses form_defaults = Some 1" "maskDiameter form_defaults = Some 200"
    "symmetry form_defaults = Some ''C1''" "angularSamplingDeg form_defaults = Some 2"
    by (simp_all add: form_defaults_def)
  show ?thesis
    by (rule scenario_in_order [OF a v])
qed

text \<open>
  C3, as the code has it. On an instance with every yes/no option off and every
  defaulted option at its default, the command consists of the tokens of the
  unconditional statements and of two more: \<open>--grad_write_iter 10\<close>, emitted because the
  default write interval is not zero, and \<open>--dont_combine_weights_via_disc\<close>, emitted
  because \<open>combineItersDisc\<close> is off. No other conditional token is present.
\<close>

theorem all_off_command:
  assumes "all_off_defaults p" and "genCommand K p = Some cmd"
  shows "cmd = ''--i '' @ inputStar K p @ '' --o '' @ getExtraPath p [] @
               '' --denovo_3dref --j 1 --iter 25 --K 1 --particle_diameter '' @
               num (maskDiameter p) @
               '' --grad_write_iter 10 --sym C1 --healpix_order 2 --offset_step 2 --offset_range 6 --pool 1 --dont_combine_weights_via_disc oversampling 1'' \<and>
         (\<exists>a b c. mandatory_tokens K p = a @ b @ c \<and>
            tokens cmd = a @ [''--grad_write_iter'', ''10''] @ b @
                         [''--dont_combine_weights_via_disc''] @ c)"
proof -
  from assms(1) have v:
    "\<not> doCTF p" "\<not> ignoreCTFUntilFirstPeak p" "\<not> ctfPhaseFlipped p" "\<not> padCtf p"
    "\<not> ctfUncorrectedRef p" "\<not> gradBasedOpt p" "\<not> noInitBlobs p" "\<not> flattenSolvent p"
    "\<not> noParallelDiscIO p" "\<not> allParticlesRam p" "\<not> combineItersDisc p" "\<not> doGpu p"
    "numberOfThreads p = Some 1"
    "maxNumberOfIterations p = Some 25" "numberOfClasses p = Some 1" "zeroMask p = Some 0"
    "gradWriteIter p = Some 10" "symmetry p = Some ''C1''" "angularSamplingDeg p = Some 2"
    "offsetSearchRangePix p = Some 6" "offsetSearchStepPix p = Some 2"
    "pooledSubtomos p = Some 1" "scratchDir p = None" "gpusToUse p = Some ''0''"
    "oversampling p = Some 1" "extraParams p = None"
    unfolding all_off_defaults_def by blast+
  have s: "cmd = ''--i '' @ inputStar K p @ '' --o '' @ getExtraPath p [] @
               '' --denovo_3dref --j 1 --iter 25 --K 1 --particle_diameter '' @
               num (maskDiameter p) @
               '' --grad_write_iter 10 --sym C1 --healpix_order 2 --offset_step 2 --offset_range 6 --pool 1 --dont_combine_weights_via_disc oversampling 1''"
    using genCommand_fragments [OF assms(2)]
    by (simp add: fragments_def flag_def opt_def v truthy_int_def truthy_str_def pct_s_def
        num_def [of "Some _"] int_str_values)
  let ?a = "[''--i''] @ tokens (inputStar K p) @ [''--o''] @ tokens (getExtraPath p []) @
     [''--denovo_3dref'', ''--j'', ''1'', ''--iter'', ''25'', ''--K'', ''1'',
      ''--particle_diameter'', num (maskDiameter p)]"
  let ?b = "[''--sym'', ''C1'', ''--healpix_order'', ''2'', ''--offset_step'', ''2'',
      ''--offset_range'', ''6'', ''--pool'', ''1'']"
  let ?c = "[''oversampling'', ''1'']"
  have m: "mandatory_tokens K p = ?a @ ?b @ ?c"
    by (simp add: mandatory_tokens_def v pct_s_def num_def [of "Some _"] int_str_values
        tokens_values)
  have t: "tokens cmd = ?a @ [''--grad_write_iter'', ''10''] @ ?b @
                         [''--dont_combine_weights_via_disc''] @ ?c"
    using genCommand_tokens [OF assms(2)]
    by (simp add: command_tokens_def v truthy_int_def truthy_str_def pct_s_def
        num_def [of "Some _"] int_str_values tokens_values)
  from s m t show ?thesis by blast
qed

theorem all_off_command_witness:
  "\<exists>a b c. mandatory_tokens ''particles.star'' (form_defaults\<lparr>doCTF := False\<rparr>) = a @ b @ c \<and>
     tokens ''--i Runs/1/extra/particles.star --o Runs/2/extra --denovo_3dref --j 1 --iter 25 --K 1 --particle_diameter 200 --grad_write_iter 10 --sym C1 --healpix_order 2 --offset_step 2 --offset_range 6 --pool 1 --dont_combine_weights_via_disc oversampling 1'' =
     a @ [''--grad_write_iter'', ''10''] @ b @ [''--dont_combine_weights_via_disc''] @ c"
proof -
  have a: "all_off_defaults (form_defaults\<lparr>doCTF := False\<rparr>)"
    by (simp add: all_off_defaults_def form_defaults_def)
  have b: "genCommand ''particles.star'' (form_defaults\<lparr>doCTF := False\<rparr>) =
    Some ''--i Runs/1/extra/particles.star --o Runs/2/extra --denovo_3dref --j 1 --iter 25 --K 1 --particle_diameter 200 --grad_write_iter 10 --sym C1 --healpix_order 2 --offset_step 2 --offset_range 6 --pool 1 --dont_combine_weights_via_disc oversampling 1''"
    by (simp add: genCommand_def eval_defs)
  show ?thesis
    by (rule conjunct2 [OF all_off_command [OF a b]])
qed

theorem all_off_command_counterexample:
  "all_off_defaults (form_defaults\<lparr>doCTF := False\<rparr>) \<and>
   genCommand ''particles.star'' (form_defaults\<lparr>doCTF := False\<rparr>) =
     Some ''--i Runs/1/extra/particles.star --o Runs/2/extra --denovo_3dref --j 1 --iter 25 --K 1 --particle_diameter 200 --grad_write_iter 10 --sym C1 --healpix_order 2 --offset_step 2 --offset_range 6 --pool 1 --dont_combine_weights_via_disc oversampling 1'' \<and>
   ''--dont_combine_weights_via_disc'' \<in> set (tokens ''--i Runs/1/extra/particles.star --o Runs/2/extra --denovo_3dref --j 1 --iter 25 --K 1 --particle_diameter 200 --grad_write_iter 10 --sym C1 --healpix_order 2 --offset_step 2 --offset_range 6 --pool 1 --dont_combine_weights_via_disc oversampling 1'') \<and>
   ''--dont_combine_weights_via_disc'' \<notin>
     set (mandatory_tokens ''particles.star'' (form_defaults\<lparr>doCTF := False\<rparr>))"
proof -
  have a: "all_off_defaults (form_defaults\<lparr>doCTF := False\<rparr>)"
    by (simp add: all_off_defaults_def form_defaults_def)
  have b: "genCommand ''particles.star'' (form_defaults\<lparr>doCTF := False\<rparr>) =
    Some ''--i Runs/1/extra/particles.star --o Runs/2/extra --denovo_3dref --j 1 --iter 25 --K 1 --particle_diameter 200 --grad_write_iter 10 --sym C1 --healpix_order 2 --offset_step 2 --offset_range 6 --pool 1 --dont_combine_weights_via_disc oversampling 1''"
    by (simp add: genCommand_def eval_defs)
  have c: "''--dont_combine_weights_via_disc'' \<in> set (tokens ''--i Runs/1/extra/particles.star --o Runs/2/extra --denovo_3dref --j 1 --iter 25 --K 1 --particle_diameter 200 --grad_write_iter 10 --sym C1 --healpix_order 2 --offset_step 2 --offset_range 6 --pool 1 --dont_combine_weights_via_disc oversampling 1'')"
    by (simp add: tokens_def isspace_def)
  have d: "''--dont_combine_weights_via_disc'' \<notin>
     set (mandatory_tokens ''particles.star'' (form_defaults\<lparr>doCTF := False\<rparr>))"
    by (simp add: mandatory_tokens_def inputStar_def num_def eval_defs tokens_def isspace_def)
  from a b c d show ?thesis by blast
qed

text \<open>
  C5, as the code has it. The pair \<open>--gpu <list>\<close> is emitted exactly when \<open>doGpu\<close> is
  on: it is in the command then, and with \<open>doGpu\<close> off the token \<open>--gpu\<close> is in the
  command only if a string printed as it is contains it. The pair
  \<open>--grad_write_iter <n>\<close> is governed by its own value and not by \<open>gradBasedOpt\<close>: it
  is emitted exactly when \<open>gradWriteIter\<close> is set and not zero.
\<close>

theorem conditional_options:
  assumes "genCommand K p = Some cmd"
  shows "(doGpu p \<longrightarrow> ''--gpu'' \<in> set (tokens cmd) \<and>
            (\<exists>pre post. spaced pre \<and> cmd = pre @ ''--gpu '' @ pct_s (gpusToUse p) @ '' '' @ post)) \<and>
         (\<not> doGpu p \<longrightarrow> ''--gpu'' \<notin> set (user_tokens K p) \<longrightarrow> ''--gpu'' \<notin> set (tokens cmd)) \<and>
         (truthy_int (gradWriteIter p) \<longrightarrow> ''--grad_write_iter'' \<in> set (tokens cmd) \<and>
            (\<exists>pre post. spaced pre \<and>
               cmd = pre @ ''--grad_write_iter '' @ num (gradWriteIter p) @ '' '' @ post)) \<and>
         (\<not> truthy_int (gradWriteIter p) \<longrightarrow> ''--grad_write_iter'' \<notin> set (user_tokens K p) \<longrightarrow>
            ''--grad_write_iter'' \<notin> set (tokens cmd))"
proof -
  have n: "\<And>v. ''--gpu'' \<noteq> num v" "\<And>v. ''--grad_write_iter'' \<noteq> num v"
    by (rule not_num, simp add: numeric_def)+
  have t: "tokens cmd = command_tokens K p"
    using assms by (rule genCommand_tokens)
  have c: "cmd = concat (fragments K p)"
    using assms by (rule genCommand_fragments)
  have g: "\<exists>pre post. spaced pre \<and> cmd = pre @ ''--gpu '' @ pct_s (gpusToUse p) @ '' '' @ post"
    if "doGpu p"
  proof -
    let ?pre = "concat (take 26 (fragments K p))"
    let ?post = "concat (drop 27 (fragments K p))"
    have "spaced ?pre" by (simp add: fragments_def)
    moreover have "cmd = ?pre @ ''--gpu '' @ pct_s (gpusToUse p) @ '' '' @ ?post"
      unfolding c using that by (simp add: fragments_def opt_def)
    ultimately show ?thesis by blast
  qed
  have w: "\<exists>pre post. spaced pre \<and>
      cmd = pre @ ''--grad_write_iter '' @ num (gradWriteIter p) @ '' '' @ post"
    if "truthy_int (gradWriteIter p)"
  proof -
    let ?pre = "concat (take 15 (fragments K p))"
    let ?post = "concat (drop 16 (fragments K p))"
    have "spaced ?pre" by (simp add: fragments_def)
    moreover have "cmd = ?pre @ ''--grad_write_iter '' @ num (gradWriteIter p) @ '' '' @ ?post"
      unfolding c using that by (simp add: fragments_def opt_def)
    ultimately show ?thesis by blast
  qed
  have m: "(doGpu p \<longrightarrow> ''--gpu'' \<in> set (tokens cmd)) \<and>
         (\<not> doGpu p \<longrightarrow> ''--gpu'' \<notin> set (user_tokens K p) \<longrightarrow> ''--gpu'' \<notin> set (tokens cmd)) \<and>
         (truthy_int (gradWriteIter p) \<longrightarrow> ''--grad_write_iter'' \<in> set (tokens cmd)) \<and>
         (\<not> truthy_int (gradWriteIter p) \<longrightarrow> ''--grad_write_iter'' \<notin> set (user_tokens K p) \<longrightarrow>
            ''--grad_write_iter'' \<notin> set (tokens cmd))"
    unfolding t by (simp add: command_tokens_def mem_user_tokens n)
  from g w m show ?thesis by blast
qed

theorem conditional_options_witness:
  "''--gpu'' \<in> set (tokens
     ''--i Runs/1/extra/particles.star --o Runs/2/extra --denovo_3dref --j 1 --ctf --iter 25 --K 1 --particle_diameter 200 --sym C1 --healpix_order 2 --offset_step 2 --offset_range 6 --pool 1 --dont_combine_weights_via_disc --gpu 0 oversampling 1'') \<and>
   ''--grad_write_iter'' \<notin> set (tokens
     ''--i Runs/1/extra/particles.star --o Runs/2/extra --denovo_3dref --j 1 --ctf --iter 25 --K 1 --particle_diameter 200 --sym C1 --healpix_order 2 --offset_step 2 --offset_range 6 --pool 1 --dont_combine_weights_via_disc --gpu 0 oversampling 1'') \<and>
   ''--gpu'' \<notin> set (tokens ''--i Runs/1/extra/particles.star --o Runs/2/extra --denovo_3dref --j 1 --ctf --iter 25 --K 1 --particle_diameter 200 --grad_write_iter 10 --sym C1 --healpix_order 2 --offset_step 2 --offset_range 6 --pool 1 --dont_combine_weights_via_disc oversampling 1'') \<and>
   ''--grad_write_iter'' \<in> set (tokens ''--i Runs/1/extra/particles.star --o Runs/2/extra --denovo_3dref --j 1 --ctf --iter 25 --K 1 --particle_diameter 200 --grad_write_iter 10 --sym C1 --healpix_order 2 --offset_step 2 --offset_range 6 --pool 1 --dont_combine_weights_via_disc oversampling 1'')"
proof -
  have a: "genCommand ''particles.star'' (form_defaults\<lparr>gradWriteIter := Some 0, doGpu := True\<rparr>) =
    Some ''--i Runs/1/extra/particles.star --o Runs/2/extra --denovo_3dref --j 1 --ctf --iter 25 --K 1 --particle_diameter 200 --sym C1 --healpix_order 2 --offset_step 2 --offset_range 6 --pool 1 --dont_combine_weights_via_disc --gpu 0 oversampling 1''"
    by (simp add: genCommand_def eval_defs)
  have b: "genCommand ''particles.star'' form_defaults = Some ''--i Runs/1/extra/particles.star --o Runs/2/extra --denovo_3dref --j 1 --ctf --iter 25 --K 1 --particle_diameter 200 --grad_write_iter 10 --sym C1 --healpix_order 2 --offset_step 2 --offset_range 6 --pool 1 --dont_combine_weights_via_disc oversampling 1''"
    by (simp add: genCommand_def eval_defs)
  have u: "''--grad_write_iter'' \<notin>
      set (user_tokens ''particles.star'' (form_defaults\<lparr>gradWriteIter := Some 0, doGpu := True\<rparr>))"
    "''--gpu'' \<notin> set (user_tokens ''particles.star'' form_defaults)"
    by (simp_all add: mem_user_tokens inputStar_def eval_defs tokens_word word_def isspace_def)
  show ?thesis
    using conditional_options [OF a] conditional_options [OF b] u
    by (simp add: form_defaults_def truthy_int_def)
qed

theorem conditional_options_counterexample:
  "\<not> gradBasedOpt form_defaults \<and>
   genCommand ''particles.star'' form_defaults = Some ''--i Runs/1/extra/particles.star --o Runs/2/extra --denovo_3dref --j 1 --ctf --iter 25 --K 1 --particle_diameter 200 --grad_write_iter 10 --sym C1 --healpix_order 2 --offset_step 2 --offset_range 6 --pool 1 --dont_combine_weights_via_disc oversampling 1'' \<and>
   ''--grad_write_iter'' \<in> set (tokens ''--i Runs/1/extra/particles.star --o Runs/2/extra --denovo_3dref --j 1 --ctf --iter 25 --K 1 --particle_diameter 200 --grad_write_iter 10 --sym C1 --healpix_order 2 --offset_step 2 --offset_range 6 --pool 1 --dont_combine_weights_via_disc oversampling 1'')"
  by (simp add: genCommand_def eval_defs tokens_def isspace_def)

text \<open>
  C4, as the code has it. Take an instance on which \<open>_genCommand\<close> returns and one of
  its yes/no options that is off, and switch that option on. The statement guarded by
  the option has a fixed place among the statements of \<open>_genCommand\<close>: the text
  appended before it ends at a token boundary, and neither that text nor the text
  appended after it depends on the option. For \<open>doCTF\<close>, \<open>ignoreCTFUntilFirstPeak\<close>,
  \<open>ctfPhaseFlipped\<close>, \<open>padCtf\<close>, \<open>ctfUncorrectedRef\<close>, \<open>gradBasedOpt\<close>,
  \<open>noInitBlobs\<close>, \<open>flattenSolvent\<close>, \<open>noParallelDiscIO\<close> and \<open>allParticlesRam\<close> the
  old command is the text before followed by the text after, and the new command has
  the option's flag token between the two; for \<open>doGpu\<close> the text between them is the
  pair \<open>--gpu <list>\<close>. For \<open>combineItersDisc\<close> the mapping is inverted: the old command
  has \<open>--dont_combine_weights_via_disc\<close> between the two texts and the new one has
  nothing there. For \<open>keepOnlyLastIterFiles\<close> the command does not change.
\<close>

theorem toggle_effect:
  assumes "genCommand K p = Some cmd" and "\<not> is_on t p"
  shows "(t \<noteq> KeepOnlyLastIterFiles \<longrightarrow>
            spaced (text_before t K p) \<and>
            text_before t K (switch_on t p) = text_before t K p \<and>
            text_after t K (switch_on t p) = text_after t K p) \<and>
         (t \<noteq> CombineItersDisc \<and> t \<noteq> KeepOnlyLastIterFiles \<longrightarrow>
            spaced (flag_text t p) \<and>
            cmd = text_before t K p @ text_after t K p \<and>
            genCommand K (switch_on t p) =
              Some (text_before t K p @ flag_text t p @ text_after t K p) \<and>
            tokens cmd = tokens (text_before t K p) @ tokens (text_after t K p) \<and>
            tokens (text_before t K p @ flag_text t p @ text_after t K p) =
              tokens (text_before t K p) @ tokens (flag_text t p) @ tokens (text_after t K p)) \<and>
         (t = CombineItersDisc \<longrightarrow>
            cmd = text_before t K p @ ''--dont_combine_weights_via_disc '' @ text_after t K p \<and>
            genCommand K (switch_on t p) = Some (text_before t K p @ text_after t K p)) \<and>
         (t = KeepOnlyLastIterFiles \<longrightarrow> genCommand K (switch_on t p) = Some cmd)"
proof -
  from assms(1) have pop: "populated p" by (rule genCommand_populated)
  have c: "cmd = concat (fragments K p)"
    using assms(1) by (rule genCommand_fragments)
  have c': "genCommand K (switch_on t p) = Some (concat (fragments K (switch_on t p)))"
    using pop by (simp add: genCommand_Some)
  let ?k = "position t"
  let ?pre = "text_before t K p"
  let ?post = "text_after t K p"
  have split: "concat (fragments K q) =
      text_before t K q @ fragments K q ! ?k @ text_after t K q"
    if "t \<noteq> KeepOnlyLastIterFiles" for q
    unfolding text_before_def text_after_def
    using switch_on_pieces(4) [OF that] by (intro concat_split) simp
  have place: "spaced ?pre \<and> text_before t K (switch_on t p) = ?pre \<and>
      text_after t K (switch_on t p) = ?post"
    if k: "t \<noteq> KeepOnlyLastIterFiles"
    unfolding text_before_def text_after_def
    using switch_on_pieces(1,2,3) [OF k, where K = K and p = p] by simp
  have plain: "spaced (flag_text t p) \<and> cmd = ?pre @ ?post \<and>
      genCommand K (switch_on t p) = Some (?pre @ flag_text t p @ ?post) \<and>
      tokens cmd = tokens ?pre @ tokens ?post \<and>
      tokens (?pre @ flag_text t p @ ?post) =
        tokens ?pre @ tokens (flag_text t p) @ tokens ?post"
    if k: "t \<noteq> KeepOnlyLastIterFiles" and d: "t \<noteq> CombineItersDisc"
  proof -
    have sf: "spaced (flag_text t p)"
      by (cases t) (simp_all add: spaced_def)
    have sp: "spaced ?pre" using place [OF k] by simp
    have a: "cmd = ?pre @ ?post"
      unfolding c by (subst split [OF k]) (simp add: switch_on_piece(1) [OF assms(2) k d])
    have b: "genCommand K (switch_on t p) = Some (?pre @ flag_text t p @ ?post)"
      unfolding c' using place [OF k]
      by (subst split [OF k]) (simp add: switch_on_piece(2) [OF assms(2) k d])
    have ta: "tokens cmd = tokens ?pre @ tokens ?post"
      unfolding a using sp by (rule tokens_spaced)
    have tb: "tokens (?pre @ flag_text t p @ ?post) =
        tokens ?pre @ tokens (flag_text t p) @ tokens ?post"
      using sp sf by (simp add: tokens_spaced)
    from sf a b ta tb show ?thesis by simp
  qed
  have inverted: "cmd = ?pre @ ''--dont_combine_weights_via_disc '' @ ?post \<and>
      genCommand K (switch_on t p) = Some (?pre @ ?post)"
    if d: "t = CombineItersDisc"
  proof -
    have k: "t \<noteq> KeepOnlyLastIterFiles" using d by simp
    have off: "\<not> combineItersDisc p" using assms(2) d by simp
    have a: "cmd = ?pre @ ''--dont_combine_weights_via_disc '' @ ?post"
      unfolding c by (subst split [OF k]) (simp add: d switch_on_combine(1) [OF off])
    have "fragments K (switch_on t p) ! ?k = []"
      using switch_on_combine(2) [OF off, where K = K] by (simp add: d)
    then have b: "genCommand K (switch_on t p) = Some (?pre @ ?post)"
      unfolding c' using place [OF k] by (subst split [OF k]) simp
    from a b show ?thesis by simp
  qed
  have keep: "genCommand K (switch_on t p) = Some cmd" if "t = KeepOnlyLastIterFiles"
    using c' unfolding c that switch_on_keep .
  from place plain inverted keep show ?thesis by blast
qed

theorem toggle_effect_witness:
  "text_before GradBasedOpt ''particles.star'' form_defaults =
     ''--i Runs/1/extra/particles.star --o Runs/2/extra --denovo_3dref --j 1 --ctf --iter 25 --K 1 --particle_diameter 200 '' \<and>
   text_after GradBasedOpt ''particles.star'' form_defaults =
     ''--grad_write_iter 10 --sym C1 --healpix_order 2 --offset_step 2 --offset_range 6 --pool 1 --dont_combine_weights_via_disc oversampling 1'' \<and>
   genCommand ''particles.star'' (switch_on GradBasedOpt form_defaults) =
     Some (''--i Runs/1/extra/particles.star --o Runs/2/extra --denovo_3dref --j 1 --ctf --iter 25 --K 1 --particle_diameter 200 '' @
           ''--grad '' @
           ''--grad_write_iter 10 --sym C1 --healpix_order 2 --offset_step 2 --offset_range 6 --pool 1 --dont_combine_weights_via_disc oversampling 1'')"
proof -
  have a: "genCommand ''particles.star'' form_defaults = Some ''--i Runs/1/extra/particles.star --o Runs/2/extra --denovo_3dref --j 1 --ctf --iter 25 --K 1 --particle_diameter 200 --grad_write_iter 10 --sym C1 --healpix_order 2 --offset_step 2 --offset_range 6 --pool 1 --dont_combine_weights_via_disc oversampling 1''"
    by (simp add: genCommand_def eval_defs)
  have b: "\<not> is_on GradBasedOpt form_defaults"
    by (simp add: form_defaults_def)
  have pre: "text_before GradBasedOpt ''particles.star'' form_defaults =
     ''--i Runs/1/extra/particles.star --o Runs/2/extra --denovo_3dref --j 1 --ctf --iter 25 --K 1 --particle_diameter 200 ''"
    by (simp add: text_before_def fragments_def flag_def opt_def num_def inputStar_def
        eval_defs)
  have post: "text_after GradBasedOpt ''particles.star'' form_defaults =
     ''--grad_write_iter 10 --sym C1 --healpix_order 2 --offset_step 2 --offset_range 6 --pool 1 --dont_combine_weights_via_disc oversampling 1''"
    by (simp add: text_after_def fragments_def flag_def opt_def num_def inputStar_def
        eval_defs)
  have "genCommand ''particles.star'' (switch_on GradBasedOpt form_defaults) =
      Some (text_before GradBasedOpt ''particles.star'' form_defaults @
            flag_text GradBasedOpt form_defaults @
            text_after GradBasedOpt ''particles.star'' form_defaults)"
    using toggle_effect [OF a b] by simp
  then show ?thesis
    unfolding pre post by (simp del: switch_on.simps)
qed

theorem toggle_effect_counterexample:
  "\<not> is_on CombineItersDisc form_defaults \<and>
   genCommand ''particles.star'' form_defaults = Some ''--i Runs/1/extra/particles.star --o Runs/2/extra --denovo_3dref --j 1 --ctf --iter 25 --K 1 --particle_diameter 200 --grad_write_iter 10 --sym C1 --healpix_order 2 --offset_step 2 --offset_range 6 --pool 1 --dont_combine_weights_via_disc oversampling 1'' \<and>
   genCommand ''particles.star'' (switch_on CombineItersDisc form_defaults) = Some ''--i Runs/1/extra/particles.star --o Runs/2/extra --denovo_3dref --j 1 --ctf --iter 25 --K 1 --particle_diameter 200 --grad_write_iter 10 --sym C1 --healpix_order 2 --offset_step 2 --offset_range 6 --pool 1 oversampling 1'' \<and>
   ''--dont_combine_weights_via_disc'' \<in> set (tokens ''--i Runs/1/extra/particles.star --o Runs/2/extra --denovo_3dref --j 1 --ctf --iter 25 --K 1 --particle_diameter 200 --grad_write_iter 10 --sym C1 --healpix_order 2 --offset_step 2 --offset_range 6 --pool 1 --dont_combine_weights_via_disc oversampling 1'') \<and>
   ''--dont_combine_weights_via_disc'' \<notin> set (tokens ''--i Runs/1/extra/particles.star --o Runs/2/extra --denovo_3dref --j 1 --ctf --iter 25 --K 1 --particle_diameter 200 --grad_write_iter 10 --sym C1 --healpix_order 2 --offset_step 2 --offset_range 6 --pool 1 oversampling 1'')"
proof -
  have a: "\<not> is_on CombineItersDisc form_defaults"
    by (simp add: form_defaults_def)
  have b: "genCommand ''particles.star'' form_defaults = Some ''--i Runs/1/extra/particles.star --o Runs/2/extra --denovo_3dref --j 1 --ctf --iter 25 --K 1 --particle_diameter 200 --grad_write_iter 10 --sym C1 --healpix_order 2 --offset_step 2 --offset_range 6 --pool 1 --dont_combine_weights_via_disc oversampling 1''"
    by (simp add: genCommand_def eval_defs)
  have c: "genCommand ''particles.star'' (switch_on CombineItersDisc form_defaults) = Some ''--i Runs/1/extra/particles.star --o Runs/2/extra --denovo_3dref --j 1 --ctf --iter 25 --K 1 --particle_diameter 200 --grad_write_iter 10 --sym C1 --healpix_order 2 --offset_step 2 --offset_range 6 --pool 1 oversampling 1''"
    by (simp add: genCommand_def eval_defs)
  have d: "''--dont_combine_weights_via_disc'' \<in> set (tokens ''--i Runs/1/extra/particles.star --o Runs/2/extra --denovo_3dref --j 1 --ctf --iter 25 --K 1 --particle_diameter 200 --grad_write_iter 10 --sym C1 --healpix_order 2 --offset_step 2 --offset_range 6 --pool 1 --dont_combine_weights_via_disc oversampling 1'')"
    by (simp add: tokens_def isspace_def)
  have e: "''--dont_combine_weights_via_disc'' \<notin> set (tokens ''--i Runs/1/extra/particles.star --o Runs/2/extra --denovo_3dref --j 1 --ctf --iter 25 --K 1 --particle_diameter 200 --grad_write_iter 10 --sym C1 --healpix_order 2 --offset_step 2 --offset_range 6 --pool 1 oversampling 1'')"
    by (simp add: tokens_def isspace_def)
  from a b c d e show ?thesis by blast
qed

text \<open>
  C9. \<open>_insertAllSteps\<close> registers \<open>_generateDeNovo3DModel\<close> and nothing else, so a run of
  the protocol is that step alone: its only effect is the call of the runner, none of
  the deletions that \<open>_cleanUndesiredFiles\<close> makes takes place, and neither the command
  nor the run depends on \<open>keepOnlyLastIterFiles\<close>.
\<close>

theorem clean_never_invoked:
  assumes "runDeNovo K p = Some evs"
  shows "insertAllSteps K p = [generateDeNovo3DModel K] \<and>
         (\<exists>program cmd nMpi. evs = [RunRelionTomo program cmd nMpi]) \<and>
         (\<forall>e \<in> set (snd (cleanUndesiredFiles abspath lastIter nClasses p files)). e \<notin> set evs) \<and>
         genCommand K (p\<lparr>keepOnlyLastIterFiles := b\<rparr>) = genCommand K p \<and>
         runDeNovo K (p\<lparr>keepOnlyLastIterFiles := b\<rparr>) = Some evs"
proof -
  have r: "runDeNovo K q = generateDeNovo3DModel K q" for q
    by (cases "generateDeNovo3DModel K q") (simp_all add: runDeNovo_def insertAllSteps_def)
  have g: "genCommand K (p\<lparr>keepOnlyLastIterFiles := b\<rparr>) = genCommand K p"
    by (simp add: genCommand_def)
  have s: "generateDeNovo3DModel K (p\<lparr>keepOnlyLastIterFiles := b\<rparr>) = generateDeNovo3DModel K p"
    by (simp add: generateDeNovo3DModel_def g)
  from assms have "generateDeNovo3DModel K p = Some evs" by (simp add: r)
  then have one: "\<exists>program cmd nMpi. evs = [RunRelionTomo program cmd nMpi]"
    by (auto simp: generateDeNovo3DModel_def Let_def split: Option.bind_splits)
  have none: "\<forall>e \<in> set (snd (cleanUndesiredFiles abspath lastIter nClasses p files)). e \<notin> set evs"
    using one cleanUndesiredFiles_events by fastforce
  from one none g s assms show ?thesis
    by (simp add: r insertAllSteps_def)
qed

theorem clean_never_invoked_witness:
  "snd (cleanUndesiredFiles id 1 1 form_defaults {''Runs/2/extra/relion_it000_model.star''}) =
     [Remove ''Runs/2/extra/relion_it000_model.star''] \<and>
   runDeNovo ''particles.star'' form_defaults =
     Some [RunRelionTomo ''relion_refine'' ''--i Runs/1/extra/particles.star --o Runs/2/extra --denovo_3dref --j 1 --ctf --iter 25 --K 1 --particle_diameter 200 --grad_write_iter 10 --sym C1 --healpix_order 2 --offset_step 2 --offset_range 6 --pool 1 --dont_combine_weights_via_disc oversampling 1'' (Some 1)] \<and>
   runDeNovo ''particles.star'' (form_defaults\<lparr>keepOnlyLastIterFiles := True\<rparr>) =
     Some [RunRelionTomo ''relion_refine'' ''--i Runs/1/extra/particles.star --o Runs/2/extra --denovo_3dref --j 1 --ctf --iter 25 --K 1 --particle_diameter 200 --grad_write_iter 10 --sym C1 --healpix_order 2 --offset_step 2 --offset_range 6 --pool 1 --dont_combine_weights_via_disc oversampling 1'' (Some 1)]"
proof -
  have a: "genCommand ''particles.star'' form_defaults = Some ''--i Runs/1/extra/particles.star --o Runs/2/extra --denovo_3dref --j 1 --ctf --iter 25 --K 1 --particle_diameter 200 --grad_write_iter 10 --sym C1 --healpix_order 2 --offset_step 2 --offset_range 6 --pool 1 --dont_combine_weights_via_disc oversampling 1''"
    by (simp add: genCommand_def eval_defs)
  have b: "runDeNovo ''particles.star'' form_defaults =
     Some [RunRelionTomo ''relion_refine'' ''--i Runs/1/extra/particles.star --o Runs/2/extra --denovo_3dref --j 1 --ctf --iter 25 --K 1 --particle_diameter 200 --grad_write_iter 10 --sym C1 --healpix_order 2 --offset_step 2 --offset_range 6 --pool 1 --dont_combine_weights_via_disc oversampling 1'' (Some 1)]"
    by (simp add: runDeNovo_def insertAllSteps_def generateDeNovo3DModel_def getProgram_def a)
      (simp add: form_defaults_def)
  have c: "snd (cleanUndesiredFiles id 1 1 form_defaults {''Runs/2/extra/relion_it000_model.star''}) =
     [Remove ''Runs/2/extra/relion_it000_model.star'']"
    by (simp add: cleanUndesiredFiles_def iterFiles_def removeIfExists_def fmt_03d_values
        form_defaults_def extraDir_def)
  from clean_never_invoked [OF b, where b = True] b c show ?thesis
    by simp
qed

text \<open>
  C7, as the code has it. Whenever \<open>_genTomoRecCommand\<close> returns, the binning factor
  follows \<open>--bin\<close> as one token, printed by \<open>%.1f\<close>. For a finite factor the token is
  in fixed-point notation with one decimal: a minus sign when the factor is below zero,
  then the decimal digits of \<open>n div 10\<close>, a point and the digit \<open>n mod 10\<close>, where
  \<open>n\<close> tenths is the multiple of a tenth nearest to the magnitude of the factor, the
  even one of the two when it lies half-way. So 8 gives \<open>8.0\<close> and 8.25, half-way
  between 8.2 and 8.3, gives \<open>8.2\<close>. Negative zero gives \<open>-0.0\<close>. A factor that is
  not finite gives a token with no decimal: \<open>inf\<close>, \<open>-inf\<close> or \<open>nan\<close>.
\<close>

theorem binning_one_decimal:
  assumes "genTomoRecCommand p = Some cmd"
  shows "\<exists>b parts tid w h d j.
           binFactor p = Some b \<and> inReParticles p = Some parts \<and> tomoId p = Some tid \<and>
           width p = Some w \<and> height p = Some h \<and> thickness p = Some d \<and>
           numberOfThreads p = Some j \<and>
           cmd = ''--t '' @ pct_s (getTomograms parts) @ '' --tn '' @ tid @
                 '' --o '' @ getExtraPath p [tid @ ''.mrc''] @
                 '' --bin '' @ fmt_1f b @
                 '' --w '' @ int_str w @ '' --h '' @ int_str h @ '' --d '' @ int_str d @
                 '' --j '' @ int_str j @ '' '' \<and>
           tokens cmd =
             [''--t''] @ tokens (pct_s (getTomograms parts)) @ [''--tn''] @ tokens tid @
             [''--o''] @ tokens (getExtraPath p [tid @ ''.mrc'']) @
             [''--bin'', fmt_1f b, ''--w'', int_str w, ''--h'', int_str h,
              ''--d'', int_str d, ''--j'', int_str j] \<and>
           (\<forall>x. b = Finite x \<longrightarrow>
              (\<exists>n. \<bar>10 * \<bar>x\<bar> - of_nat n\<bar> \<le> 1 / 2 \<and>
                    (\<bar>10 * \<bar>x\<bar> - of_nat n\<bar> = 1 / 2 \<longrightarrow> even n) \<and>
                    fmt_1f b = (if x < 0 then ''-'' else []) @ nat_str (n div 10) @ ''.'' @
                               [digit_char (n mod 10)] \<and>
                    read_nat (nat_str (n div 10)) = n div 10 \<and>
                    digit_val (digit_char (n mod 10)) = n mod 10)) \<and>
           (b = Finite 8 \<longrightarrow> fmt_1f b = ''8.0'') \<and>
           (b = Finite (33 / 4) \<longrightarrow> fmt_1f b = ''8.2'') \<and>
           (b = Minus_Zero \<longrightarrow> fmt_1f b = ''-0.0'') \<and>
           (b = Plus_Infinity \<longrightarrow> fmt_1f b = ''inf'') \<and>
           (b = Minus_Infinity \<longrightarrow> fmt_1f b = ''-inf'') \<and>
           (b = Not_a_Number \<longrightarrow> fmt_1f b = ''nan'')"
proof -
  from assms obtain parts :: RelionParticles and tid b w h d j where
    v: "binFactor p = Some b" "inReParticles p = Some parts" "tomoId p = Some tid"
       "width p = Some w" "height p = Some h" "thickness p = Some d"
       "numberOfThreads p = Some j" and
    c: "cmd = (opt ''--t'' (pct_s (getTomograms parts)) @ opt ''--tn'' tid @
            opt ''--o'' (getExtraPath p [tid @ ''.mrc''])) @
           opt ''--bin'' (fmt_1f b) @
           (opt ''--w'' (int_str w) @ opt ''--h'' (int_str h) @ opt ''--d'' (int_str d) @
            opt ''--j'' (int_str j))"
    by (elim genTomoRecCommand_parts) blast
  have s: "cmd = ''--t '' @ pct_s (getTomograms parts) @ '' --tn '' @ tid @
                 '' --o '' @ getExtraPath p [tid @ ''.mrc''] @
                 '' --bin '' @ fmt_1f b @
                 '' --w '' @ int_str w @ '' --h '' @ int_str h @ '' --d '' @ int_str d @
                 '' --j '' @ int_str j @ '' ''"
    unfolding c by (simp add: opt_def)
  have w: "word ''--t''" "word ''--tn''" "word ''--o''" "word ''--bin''" "word ''--w''"
    "word ''--h''" "word ''--d''" "word ''--j''"
    by (simp_all add: word_def isspace_def)
  have t: "tokens cmd =
             [''--t''] @ tokens (pct_s (getTomograms parts)) @ [''--tn''] @ tokens tid @
             [''--o''] @ tokens (getExtraPath p [tid @ ''.mrc'']) @
             [''--bin'', fmt_1f b, ''--w'', int_str w, ''--h'', int_str h,
              ''--d'', int_str d, ''--j'', int_str j]"
    unfolding c
    by (simp add: tokens_spaced tokens_opt1 tokens_word word_fmt_1f word_int_str w)
  have fin: "\<forall>x. b = Finite x \<longrightarrow>
      (\<exists>n. \<bar>10 * \<bar>x\<bar> - of_nat n\<bar> \<le> 1 / 2 \<and>
            (\<bar>10 * \<bar>x\<bar> - of_nat n\<bar> = 1 / 2 \<longrightarrow> even n) \<and>
            fmt_1f b = (if x < 0 then ''-'' else []) @ nat_str (n div 10) @ ''.'' @
                       [digit_char (n mod 10)] \<and>
            read_nat (nat_str (n div 10)) = n div 10 \<and>
            digit_val (digit_char (n mod 10)) = n mod 10)"
  proof (intro allI impI)
    fix x assume b: "b = Finite x"
    let ?n = "nat (round_half_even (10 * \<bar>x\<bar>))"
    have "0 \<le> 10 * \<bar>x\<bar>" by simp
    from round_half_even_nearest [OF this]
    have "\<bar>10 * \<bar>x\<bar> - of_nat ?n\<bar> \<le> 1 / 2 \<and>
          (\<bar>10 * \<bar>x\<bar> - of_nat ?n\<bar> = 1 / 2 \<longrightarrow> even ?n)" .
    moreover have "fmt_1f b = (if x < 0 then ''-'' else []) @ nat_str (?n div 10) @ ''.'' @
                               [digit_char (?n mod 10)]"
      by (simp add: b fixed_1_def Let_def)
    moreover have "read_nat (nat_str (?n div 10)) = ?n div 10" by (rule read_nat_nat_str)
    moreover have "digit_val (digit_char (?n mod 10)) = ?n mod 10"
      by (rule digit_val_digit_char) simp
    ultimately show "\<exists>n. \<bar>10 * \<bar>x\<bar> - of_nat n\<bar> \<le> 1 / 2 \<and>
            (\<bar>10 * \<bar>x\<bar> - of_nat n\<bar> = 1 / 2 \<longrightarrow> even n) \<and>
            fmt_1f b = (if x < 0 then ''-'' else []) @ nat_str (n div 10) @ ''.'' @
                       [digit_char (n mod 10)] \<and>
            read_nat (nat_str (n div 10)) = n div 10 \<and>
            digit_val (digit_char (n mod 10)) = n mod 10"
      by blast
  qed
  have vals: "(b = Finite 8 \<longrightarrow> fmt_1f b = ''8.0'') \<and>
           (b = Finite (33 / 4) \<longrightarrow> fmt_1f b = ''8.2'') \<and>
           (b = Minus_Zero \<longrightarrow> fmt_1f b = ''-0.0'') \<and>
           (b = Plus_Infinity \<longrightarrow> fmt_1f b = ''inf'') \<and>
           (b = Minus_Infinity \<longrightarrow> fmt_1f b = ''-inf'') \<and>
           (b = Not_a_Number \<longrightarrow> fmt_1f b = ''nan'')"
    using fmt_1f_values by auto
  from v s t fin vals show ?thesis by blast
qed

theorem binning_one_decimal_witness:
  "tokens ''--t Runs/1/extra/tomograms.star --tn TS_01 --o Runs/3/extra/TS_01.mrc --bin 8.0 --w -1 --h -1 --d -1 --j 4 '' =
     [''--t'', ''Runs/1/extra/tomograms.star'', ''--tn'', ''TS_01'', ''--o'',
      ''Runs/3/extra/TS_01.mrc'', ''--bin'', ''8.0'', ''--w'', ''-1'', ''--h'', ''-1'',
      ''--d'', ''-1'', ''--j'', ''4''] \<and>
   tokens ''--t Runs/1/extra/tomograms.star --tn TS_01 --o Runs/3/extra/TS_01.mrc --bin 8.2 --w -1 --h -1 --d -1 --j 4 '' =
     [''--t'', ''Runs/1/extra/tomograms.star'', ''--tn'', ''TS_01'', ''--o'',
      ''Runs/3/extra/TS_01.mrc'', ''--bin'', ''8.2'', ''--w'', ''-1'', ''--h'', ''-1'',
      ''--d'', ''-1'', ''--j'', ''4'']"
proof -
  have i: "int_str (- 1) = ''-1''" "int_str 4 = ''4''"
    by (simp_all add: int_str_def nat_str.simps digit_char_def)
  have k: "tokens ''Runs/1/extra/tomograms.star'' = [''Runs/1/extra/tomograms.star'']"
    "tokens ''TS_01'' = [''TS_01'']"
    "tokens ''Runs/3/extra/TS_01.mrc'' = [''Runs/3/extra/TS_01.mrc'']"
    by (simp_all add: tokens_word word_def isspace_def)
  have a: "tokens ''--t Runs/1/extra/tomograms.star --tn TS_01 --o Runs/3/extra/TS_01.mrc --bin 8.0 --w -1 --h -1 --d -1 --j 4 '' =
     [''--t'', ''Runs/1/extra/tomograms.star'', ''--tn'', ''TS_01'', ''--o'',
      ''Runs/3/extra/TS_01.mrc'', ''--bin'', ''8.0'', ''--w'', ''-1'', ''--h'', ''-1'',
      ''--d'', ''-1'', ''--j'', ''4'']"
    using binning_one_decimal [OF tomo_example_command(1)]
    by (auto simp: tomo_example_def extraDir_def pct_s_def i k fmt_1f_values
        simp del: fmt_1f.simps)
  have b: "tokens ''--t Runs/1/extra/tomograms.star --tn TS_01 --o Runs/3/extra/TS_01.mrc --bin 8.2 --w -1 --h -1 --d -1 --j 4 '' =
     [''--t'', ''Runs/1/extra/tomograms.star'', ''--tn'', ''TS_01'', ''--o'',
      ''Runs/3/extra/TS_01.mrc'', ''--bin'', ''8.2'', ''--w'', ''-1'', ''--h'', ''-1'',
      ''--d'', ''-1'', ''--j'', ''4'']"
    using binning_one_decimal [OF tomo_example_command(2)]
    by (auto simp: tomo_example_def extraDir_def pct_s_def i k fmt_1f_values
        simp del: fmt_1f.simps)
  from a b show ?thesis by simp
qed

theorem binning_one_decimal_counterexample:
  "genTomoRecCommand (tomo_example\<lparr>binFactor := Some Plus_Infinity\<rparr>) = Some ''--t Runs/1/extra/tomograms.star --tn TS_01 --o Runs/3/extra/TS_01.mrc --bin inf --w -1 --h -1 --d -1 --j 4 '' \<and>
   tokens ''--t Runs/1/extra/tomograms.star --tn TS_01 --o Runs/3/extra/TS_01.mrc --bin inf --w -1 --h -1 --d -1 --j 4 '' =
     [''--t'', ''Runs/1/extra/tomograms.star'', ''--tn'', ''TS_01'', ''--o'',
      ''Runs/3/extra/TS_01.mrc'', ''--bin'', ''inf'', ''--w'', ''-1'', ''--h'', ''-1'',
      ''--d'', ''-1'', ''--j'', ''4''] \<and>
   CHR ''.'' \<notin> set (fmt_1f Plus_Infinity)"
proof -
  have "tokens ''--t Runs/1/extra/tomograms.star --tn TS_01 --o Runs/3/extra/TS_01.mrc --bin inf --w -1 --h -1 --d -1 --j 4 '' =
     [''--t'', ''Runs/1/extra/tomograms.star'', ''--tn'', ''TS_01'', ''--o'',
      ''Runs/3/extra/TS_01.mrc'', ''--bin'', ''inf'', ''--w'', ''-1'', ''--h'', ''-1'',
      ''--d'', ''-1'', ''--j'', ''4'']"
    by (simp add: tokens_def isspace_def)
  with tomo_example_command(3) show ?thesis by simp
qed

text \<open>
  C8. Whenever \<open>_createOutputStep\<close> returns, the tomogram it builds is located at the
  extra-directory path of \<open><tomoId>.mrc\<close>, the very path that follows \<open>--o \<close> in the
  command of the reconstruction step, and its sampling rate is the product of the
  tilt-series sampling rate and the binning factor.
\<close>

theorem output_tomogram:
  assumes "createOutputStep fmul p = Some (tomo, evs)"
  shows "\<exists>tid parts ts b.
           tomoId p = Some tid \<and> inReParticles p = Some parts \<and>
           getTsSamplingRate parts = Some ts \<and> binFactor p = Some b \<and>
           location tomo = getExtraPath p [tid @ ''.mrc''] \<and>
           getOutTomoFileName p = Some (location tomo) \<and>
           samplingRate tomo = fmul ts b \<and>
           (\<forall>cmd. genTomoRecCommand p = Some cmd \<longrightarrow>
              (\<exists>pre post. spaced pre \<and> cmd = pre @ ''--o '' @ location tomo @ '' '' @ post))"
proof -
  from assms obtain tid parts ts b where
    v: "tomoId p = Some tid" "inReParticles p = Some parts"
       "getTsSamplingRate parts = Some ts" "binFactor p = Some b" and
    t: "tomo = \<lparr>location = getExtraPath p [tid @ ''.mrc''], samplingRate = fmul ts b, tsId = tid\<rparr>"
    by (auto simp: createOutputStep_def getOutTomoFileName_def split: Option.bind_splits)
  have l: "location tomo = getExtraPath p [tid @ ''.mrc'']" and r: "samplingRate tomo = fmul ts b"
    by (simp_all add: t)
  have o: "getOutTomoFileName p = Some (location tomo)"
    by (simp add: getOutTomoFileName_def v l)
  have "\<exists>pre post. spaced pre \<and> cmd = pre @ ''--o '' @ location tomo @ '' '' @ post"
    if "genTomoRecCommand p = Some cmd" for cmd
  proof -
    from that obtain parts' :: RelionParticles and tid' b' w h d j where
      i: "tomoId p = Some tid'" and
      c: "cmd = (opt ''--t'' (pct_s (getTomograms parts')) @ opt ''--tn'' tid' @
            opt ''--o'' (getExtraPath p [tid' @ ''.mrc''])) @
           opt ''--bin'' (fmt_1f b') @
           (opt ''--w'' (int_str w) @ opt ''--h'' (int_str h) @ opt ''--d'' (int_str d) @
            opt ''--j'' (int_str j))"
      by (elim genTomoRecCommand_parts) blast
    let ?pre = "opt ''--t'' (pct_s (getTomograms parts')) @ opt ''--tn'' tid'"
    let ?post = "opt ''--bin'' (fmt_1f b') @ opt ''--w'' (int_str w) @ opt ''--h'' (int_str h) @
                 opt ''--d'' (int_str d) @ opt ''--j'' (int_str j)"
    from i v have "tid' = tid" by simp
    then have "cmd = ?pre @ ''--o '' @ location tomo @ '' '' @ ?post"
      unfolding c l by (simp add: opt_def)
    moreover have "spaced ?pre" by simp
    ultimately show ?thesis by blast
  qed
  with v l o r show ?thesis by blast
qed

theorem output_tomogram_witness:
  "createOutputStep exact_product tomo_example =
     Some (\<lparr>location = ''Runs/3/extra/TS_01.mrc'', samplingRate = Finite 12, tsId = ''TS_01''\<rparr>,
           [FixVolume ''Runs/3/extra/TS_01.mrc'']) \<and>
   (\<exists>pre post. spaced pre \<and>
      ''--t Runs/1/extra/tomograms.star --tn TS_01 --o Runs/3/extra/TS_01.mrc --bin 8.0 --w -1 --h -1 --d -1 --j 4 '' =
        pre @ ''--o '' @ ''Runs/3/extra/TS_01.mrc'' @ '' '' @ post)"
proof -
  have a: "createOutputStep exact_product tomo_example =
     Some (\<lparr>location = ''Runs/3/extra/TS_01.mrc'', samplingRate = Finite 12, tsId = ''TS_01''\<rparr>,
           [FixVolume ''Runs/3/extra/TS_01.mrc''])"
    by (simp add: createOutputStep_def getOutTomoFileName_def tomo_example_def extraDir_def
        exact_product_def)
  from output_tomogram [OF a] tomo_example_command(1) a show ?thesis
    by (auto simp del: append.simps)
qed

end
